theory Spec2Isabelle
  imports Main "HOL-Library.Word"
begin

section \<open>Strings\<close>

text \<open>
  A JavaScript string is a sequence of UTF-16 code units.  The line feed and the space are
  the two code units the normaliser writes.
\<close>

type_synonym jsstring = "16 word list"

definition LF :: "16 word" where
  "LF = 0x0A"

definition SP :: "16 word" where
  "SP = 0x20"

text \<open>
  The code units matched by the regular expression class \<^verbatim>\<open>\s\<close> and stripped by
  \<^verbatim>\<open>String.prototype.trim\<close>: the ECMAScript WhiteSpace and LineTerminator productions.
\<close>

definition isWhiteSpace :: "16 word \<Rightarrow> bool" where
  "isWhiteSpace c =
     (c = 0x09 \<or> c = 0x0A \<or> c = 0x0B \<or> c = 0x0C \<or> c = 0x0D \<or> c = 0x20 \<or> c = 0xA0
      \<or> c = 0x1680 \<or> (0x2000 \<le> c \<and> c \<le> 0x200A) \<or> c = 0x2028 \<or> c = 0x2029
      \<or> c = 0x202F \<or> c = 0x205F \<or> c = 0x3000 \<or> c = 0xFEFF)"

text \<open>\<^verbatim>\<open>s.trim()\<close>\<close>

definition trim :: "jsstring \<Rightarrow> jsstring" where
  "trim s = rev (dropWhile isWhiteSpace (rev (dropWhile isWhiteSpace s)))"

text \<open>\<^verbatim>\<open>s.split("\n")\<close>: the empty string gives one empty line.\<close>

fun split_nl :: "jsstring \<Rightarrow> jsstring list" where
  "split_nl [] = [[]]"
| "split_nl (c # cs) =
     (if c = LF then [] # split_nl cs
      else (case split_nl cs of [] \<Rightarrow> [[c]] | l # ls \<Rightarrow> (c # l) # ls))"

text \<open>\<^verbatim>\<open>lines.join("\n")\<close>\<close>

fun join_nl :: "jsstring list \<Rightarrow> jsstring" where
  "join_nl [] = []"
| "join_nl [l] = l"
| "join_nl (l # ls) = l @ LF # join_nl ls"

text \<open>
  \<^verbatim>\<open>s.replace(/\s+/g, " ")\<close>: scanning from the left, every maximal run of white space is
  replaced by one space.
\<close>

function replace_ws_runs :: "jsstring \<Rightarrow> jsstring" where
  "replace_ws_runs [] = []"
| "replace_ws_runs (c # cs) =
     (if isWhiteSpace c then SP # replace_ws_runs (dropWhile isWhiteSpace cs)
      else c # replace_ws_runs cs)"
  by pat_completeness auto
termination
  by (relation "measure length") (auto simp: length_dropWhile_le less_Suc_eq_le)

text \<open>
  \<^verbatim>\<open>s.replace(/\n{3,}/g, "\n\n")\<close>: scanning from the left, a run of three or more line
  feeds is matched greedily and replaced by two; any other code unit is copied.
\<close>

function replace_nl3 :: "jsstring \<Rightarrow> jsstring" where
  "replace_nl3 [] = []"
| "replace_nl3 (c # cs) =
     (if c = LF \<and> 3 \<le> length (takeWhile (\<lambda>d. d = LF) (c # cs))
      then LF # LF # replace_nl3 (dropWhile (\<lambda>d. d = LF) cs)
      else c # replace_nl3 cs)"
  by pat_completeness auto
termination
  by (relation "measure length") (auto simp: length_dropWhile_le less_Suc_eq_le)

section \<open>Text normalisation\<close>

text \<open>The per-line step of the server: \<^verbatim>\<open>line.trim().replace(/\s+/g, " ")\<close>.\<close>

definition normalizeLine :: "jsstring \<Rightarrow> jsstring" where
  "normalizeLine line = replace_ws_runs (trim line)"

text \<open>The server's text before its last replacement: split, map, join.\<close>

definition normalizeLines :: "jsstring \<Rightarrow> jsstring" where
  "normalizeLines text = join_nl (map normalizeLine (split_nl text))"

text \<open>\<^verbatim>\<open>normalizeText\<close> of the Express server.\<close>

definition normalizeText :: "jsstring \<Rightarrow> jsstring" where
  "normalizeText text = replace_nl3 (normalizeLines text)"

text \<open>\<^verbatim>\<open>normalizeText\<close> of the Cloudflare worker: \<^verbatim>\<open>text.trim().replace(/\s+/g, " ")\<close>.\<close>

definition worker_normalizeText :: "jsstring \<Rightarrow> jsstring" where
  "worker_normalizeText text = replace_ws_runs (trim text)"



definition clean_ends :: "jsstring \<Rightarrow> bool" where
  "clean_ends x = (x = [] \<or> (\<not> isWhiteSpace (hd x) \<and> \<not> isWhiteSpace (last x)))"

section \<open>Values of the request body\<close>

text \<open>
  A string literal of the source, as a string of code units (the literals of the source
  are ASCII).
\<close>

definition js :: "string \<Rightarrow> jsstring" where
  "js s = map (\<lambda>c. of_nat (of_char c)) s"

text \<open>
  What JSON parsing and destructuring can put into a variable: \<open>JUndefined\<close> is a
  property that the body does not have.  Of a number the code only asks whether it is zero
  or equal to another one, so the integers stand for the numbers.
\<close>

datatype jsvalue =
    JUndefined
  | JNull
  | JBool bool
  | JNum int
  | JStr jsstring
  | JArr "jsvalue list"
  | JObj "(jsstring \<times> jsvalue) list"

text \<open>\<^verbatim>\<open>!v\<close> is \<open>\<not> truthy v\<close>.\<close>

fun truthy :: "jsvalue \<Rightarrow> bool" where
  "truthy JUndefined = False"
| "truthy JNull = False"
| "truthy (JBool b) = b"
| "truthy (JNum n) = (n \<noteq> 0)"
| "truthy (JStr s) = (s \<noteq> [])"
| "truthy (JArr _) = True"
| "truthy (JObj _) = True"

text \<open>\<^verbatim>\<open>typeof v === "string"\<close>\<close>

fun isString :: "jsvalue \<Rightarrow> bool" where
  "isString (JStr _) = True"
| "isString _ = False"

text \<open>The code units of a string value; only read where \<open>isString\<close> holds.\<close>

fun stringOf :: "jsvalue \<Rightarrow> jsstring" where
  "stringOf (JStr s) = s"
| "stringOf _ = []"

text \<open>
  \<^verbatim>\<open>a === b\<close>: primitives are compared by value; two arrays or objects parsed from a
  body are never the same reference.
\<close>

fun strict_eq :: "jsvalue \<Rightarrow> jsvalue \<Rightarrow> bool" where
  "strict_eq JUndefined JUndefined = True"
| "strict_eq JNull JNull = True"
| "strict_eq (JBool a) (JBool b) = (a = b)"
| "strict_eq (JNum a) (JNum b) = (a = b)"
| "strict_eq (JStr a) (JStr b) = (a = b)"
| "strict_eq _ _ = False"

text \<open>
  Whether converting a value of a parsed body to a string or to a property key throws, as
  in a template literal \<^verbatim>\<open>`${v}`\<close> or in \<^verbatim>\<open>LANGUAGE_NAMES[v]\<close>.  An object with a property
  of its own named \<^verbatim>\<open>toString\<close> has no callable \<^verbatim>\<open>toString\<close> (no value of a parsed body is
  callable) and its \<^verbatim>\<open>valueOf\<close> gives no primitive, so the conversion throws a
  \<^verbatim>\<open>TypeError\<close>; any other object becomes \<^verbatim>\<open>[object Object]\<close>.  An array joins the
  conversions of its elements.
\<close>

fun toStringThrows :: "jsvalue \<Rightarrow> bool" where
  "toStringThrows (JObj props) = (js ''toString'' \<in> fst ` set props)"
| "toStringThrows (JArr elements) = (\<exists>v\<in>set elements. toStringThrows v)"
| "toStringThrows _ = False"

text \<open>The message of that \<^verbatim>\<open>TypeError\<close>.\<close>

definition cannotConvert :: jsstring where
  "cannotConvert = js ''Cannot convert object to primitive value''"

text \<open>
  The four properties the handlers destructure from the body (\<^verbatim>\<open>text\<close>, \<^verbatim>\<open>sourceLang\<close>,
  \<^verbatim>\<open>targetLang\<close>, \<^verbatim>\<open>provider\<close>), before the default of \<^verbatim>\<open>sourceLang\<close> is applied.
\<close>

record body_fields =
  req_text :: jsvalue
  req_sourceLang :: jsvalue
  req_targetLang :: jsvalue
  req_provider :: jsvalue

text \<open>
  The body as a handler meets it inside its \<^verbatim>\<open>try\<close>.  \<open>BodyThrows message\<close>: in the worker,
  \<^verbatim>\<open>request.json()\<close> cannot read the body or the result cannot be destructured; in the
  server's handler, \<^verbatim>\<open>req.body\<close> cannot be destructured because the JSON middleware
  before it parsed no body.  Either way an error with this message is thrown inside the
  \<^verbatim>\<open>try\<close>.  A body the server's JSON middleware cannot read never reaches the handler:
  see \<open>json_outcome\<close>.
\<close>

datatype raw_body = BodyThrows jsstring | Body body_fields

text \<open>\<^verbatim>\<open>sourceLang = "auto"\<close> in the destructuring pattern: the default replaces \<^verbatim>\<open>undefined\<close> only.\<close>

definition sourceLangOrDefault :: "body_fields \<Rightarrow> jsvalue" where
  "sourceLangOrDefault b =
     (if req_sourceLang b = JUndefined then JStr (js ''auto'') else req_sourceLang b)"

section \<open>Responses\<close>

text \<open>
  The bodies the two handlers send.
  \<^item> \<open>TranslationResult translation cached detectedSourceLang\<close>: the success shape;
  \<^item> \<open>InvalidText\<close>: \<^verbatim>\<open>Invalid request: "text" is required and must be a non-empty string\<close>;
  \<^item> \<open>InvalidTargetLang\<close>: \<^verbatim>\<open>Invalid request: "targetLang" is required\<close>;
  \<^item> \<open>InvalidProvider\<close>: \<^verbatim>\<open>Invalid request: "provider" must be "gemini"\<close>;
  \<^item> \<open>TooManyRequests retryAfter\<close>: the worker's \<^verbatim>\<open>Too many requests\<close> with its \<^verbatim>\<open>retryAfter\<close>;
  \<^item> \<open>LimiterMessage\<close>: the message object configured for the server's rate-limit middleware;
  \<^item> \<open>ConfigurationError\<close>: \<^verbatim>\<open>Server configuration error: API key not set\<close>;
  \<^item> \<open>ServiceError message\<close>: \<^verbatim>\<open>Translation service error\<close> with a message;
  \<^item> \<open>InternalServerError message\<close>: \<^verbatim>\<open>Internal server error\<close> with a message, from the
    server's error handler;
  \<^item> \<open>CorsError\<close>: \<^verbatim>\<open>CORS error\<close>, \<^verbatim>\<open>Origin not allowed\<close>, from the server's error handler.
\<close>

datatype resp_body =
    TranslationResult jsstring bool jsvalue
  | InvalidText
  | InvalidTargetLang
  | InvalidProvider
  | TooManyRequests int
  | LimiterMessage
  | ConfigurationError
  | ServiceError jsstring
  | InternalServerError jsstring
  | CorsError

record response =
  status :: nat
  body :: resp_body

text \<open>
  The calls a handler makes to the translation cache and to the upstream service:
  detection of the language of a text, lookup of a key, a call of \<^verbatim>\<open>translateText\<close> for a
  text and two languages, store under a key.
\<close>

datatype call =
    DetectCall jsstring
  | CacheGet jsstring
  | TranslateCall jsstring jsvalue jsvalue
  | CachePut jsstring


section \<open>Language detection: what both handlers share\<close>

text \<open>
  \<^verbatim>\<open>s.toLowerCase()\<close>.  The caller only tests the result against \<^verbatim>\<open>/^[a-z]{2}$/\<close>.  Apart
  from the capitals A to Z, Unicode lower-cases one code unit to a letter a to z (the
  Kelvin sign, to k) and one code unit to two (the dotted capital I); every other code
  unit goes to code units outside a to z and is left as it is here.
\<close>

definition lowerUnit :: "16 word \<Rightarrow> jsstring" where
  "lowerUnit c =
     (if 0x41 \<le> c \<and> c \<le> 0x5A then [c + 0x20]
      else if c = 0x212A then [0x6B]
      else if c = 0x0130 then [0x69, 0x0307]
      else [c])"

definition toLowerCase :: "jsstring \<Rightarrow> jsstring" where
  "toLowerCase s = concat (map lowerUnit s)"

text \<open>\<^verbatim>\<open>/^[a-z]{2}$/.test(s)\<close>\<close>

definition isLowerLetter :: "16 word \<Rightarrow> bool" where
  "isLowerLetter c = (0x61 \<le> c \<and> c \<le> 0x7A)"

fun isTwoLetterCode :: "jsstring \<Rightarrow> bool" where
  "isTwoLetterCode [a, b] = (isLowerLetter a \<and> isLowerLetter b)"
| "isTwoLetterCode _ = False"

text \<open>\<^verbatim>\<open>text.substring(0, 500)\<close>\<close>

definition substring500 :: "jsstring \<Rightarrow> jsstring" where
  "substring500 s = take 500 s"

text \<open>\<^verbatim>\<open>s.includes(sub)\<close>\<close>

fun includes_str :: "jsstring \<Rightarrow> jsstring \<Rightarrow> bool" where
  "includes_str [] sub = (sub = [])"
| "includes_str (c # cs) sub = (take (length sub) (c # cs) = sub \<or> includes_str cs sub)"

section \<open>Configuration and stored data\<close>

text \<open>
  The environment variables the handlers read.  \<open>CACHE_TTL_HOURS\<close> holds the number the
  variable denotes when it is set to a non-empty numeral; \<open>TRUSTED_IPS\<close> holds the entries
  of the variable, split at its commas, and is empty when the variable is unset.
\<close>

record env =
  GOOGLE_API_KEY :: "jsstring option"
  GEMINI_MODEL :: "jsstring option"
  NODE_ENV :: "jsstring option"
  CACHE_TTL_HOURS :: "int option"
  TRUSTED_IPS :: "jsstring list"

text \<open>\<^verbatim>\<open>!!v\<close> for an environment variable: unset and empty are falsy.\<close>

fun isSet :: "jsstring option \<Rightarrow> bool" where
  "isSet None = False"
| "isSet (Some s) = (s \<noteq> [])"

text \<open>\<^verbatim>\<open>GEMINI_MODEL || "gemini-2.5-flash"\<close>\<close>

definition MODEL_NAME :: "env \<Rightarrow> jsstring" where
  "MODEL_NAME e =
     (case GEMINI_MODEL e of
        None \<Rightarrow> js ''gemini-2.5-flash''
      | Some m \<Rightarrow> if m = [] then js ''gemini-2.5-flash'' else m)"

text \<open>A cached translation: \<^verbatim>\<open>{ translation, timestamp }\<close>, the time in milliseconds.\<close>

record cache_record =
  translation :: jsstring
  timestamp :: int

text \<open>
  \<^verbatim>\<open>generateCacheKey\<close>: the hexadecimal SHA-1 digest of the JSON text of
  \<^verbatim>\<open>{ text, sourceLang, targetLang, provider }\<close>.  The digest of the platform is a
  parameter, a function of the four values.
\<close>

type_synonym digest = "jsstring \<Rightarrow> jsvalue \<Rightarrow> jsvalue \<Rightarrow> jsvalue \<Rightarrow> jsstring"

definition generateCacheKey ::
  "digest \<Rightarrow> jsstring \<Rightarrow> jsvalue \<Rightarrow> jsvalue \<Rightarrow> jsvalue \<Rightarrow> jsstring" where
  "generateCacheKey sha1 text sourceLang targetLang provider =
     sha1 text sourceLang targetLang provider"

section \<open>The Cloudflare worker\<close>

definition CACHE_TTL :: int where
  "CACHE_TTL = 72 * 60 * 60"

definition RATE_LIMIT_WINDOW :: int where
  "RATE_LIMIT_WINDOW = 60"

definition RATE_LIMIT_MAX :: int where
  "RATE_LIMIT_MAX = 60"

subsection \<open>The KV namespace\<close>

text \<open>
  An entry of the KV namespace \<^verbatim>\<open>TRANSLATION_CACHE\<close>: the stored value and the time, in
  milliseconds, at which the platform stops returning it (\<^verbatim>\<open>expirationTtl\<close> seconds after
  the put).
\<close>

record 'v kv_entry =
  kv_value :: 'v
  kv_expires :: int

definition kv_get :: "('k \<rightharpoonup> 'v kv_entry) \<Rightarrow> 'k \<Rightarrow> int \<Rightarrow> 'v option" where
  "kv_get m k now =
     (case m k of
        None \<Rightarrow> None
      | Some e \<Rightarrow> if kv_expires e \<le> now then None else Some (kv_value e))"

definition kv_put :: "('k \<rightharpoonup> 'v kv_entry) \<Rightarrow> 'k \<Rightarrow> 'v \<Rightarrow> int \<Rightarrow> int \<Rightarrow> ('k \<rightharpoonup> 'v kv_entry)" where
  "kv_put m k v expirationTtl now =
     m(k \<mapsto> \<lparr>kv_value = v, kv_expires = now + expirationTtl * 1000\<rparr>)"

text \<open>The counter of one client: \<^verbatim>\<open>{ count, windowStart }\<close>.\<close>

record rate_record =
  count :: int
  windowStart :: int

text \<open>
  The namespace holds the counters under the keys \<^verbatim>\<open>ratelimit:<clientIP>\<close> and the
  translations under their digests, strings of hexadecimal digits.  The two sets of keys
  are disjoint, so the namespace is two maps: the counters by client address, the
  translations by digest.
\<close>

record worker_kv =
  ratelimit_keys :: "jsstring \<rightharpoonup> rate_record kv_entry"
  cache_keys :: "jsstring \<rightharpoonup> cache_record kv_entry"

subsection \<open>Rate limiting\<close>

text \<open>
  The two shapes \<^verbatim>\<open>checkRateLimit\<close> returns: \<^verbatim>\<open>{ allowed: true, remaining }\<close> and
  \<^verbatim>\<open>{ allowed: false, remaining, retryAfter }\<close>.
\<close>

datatype rate_result = Allowed int | Denied int int

definition checkRateLimit :: "worker_kv \<Rightarrow> jsstring \<Rightarrow> int \<Rightarrow> rate_result \<times> worker_kv" where
  "checkRateLimit kv clientIP now =
     (let windowStart' = now - RATE_LIMIT_WINDOW * 1000;
          newWindow =
            (Allowed (RATE_LIMIT_MAX - 1),
             kv\<lparr>ratelimit_keys :=
                  kv_put (ratelimit_keys kv) clientIP \<lparr>count = 1, windowStart = now\<rparr>
                    RATE_LIMIT_WINDOW now\<rparr>)
      in case kv_get (ratelimit_keys kv) clientIP now of
           None \<Rightarrow> newWindow
         | Some data \<Rightarrow>
             if windowStart data < windowStart' then newWindow
             else if count data \<ge> RATE_LIMIT_MAX then (Denied 0 RATE_LIMIT_WINDOW, kv)
             else (Allowed (RATE_LIMIT_MAX - count data - 1),
                   kv\<lparr>ratelimit_keys :=
                        kv_put (ratelimit_keys kv) clientIP
                          \<lparr>count = count data + 1, windowStart = windowStart data\<rparr>
                          RATE_LIMIT_WINDOW now\<rparr>))"

text \<open>
  One client calling at the given times, one call after the other: the results of
  \<^verbatim>\<open>checkRateLimit\<close> and the namespace at the end.
\<close>

fun checkRateLimit_run :: "worker_kv \<Rightarrow> jsstring \<Rightarrow> int list \<Rightarrow> rate_result list \<times> worker_kv" where
  "checkRateLimit_run kv clientIP [] = ([], kv)"
| "checkRateLimit_run kv clientIP (now # ts) =
     (case checkRateLimit kv clientIP now of
        (r, kv') \<Rightarrow>
          (case checkRateLimit_run kv' clientIP ts of (rs, kv'') \<Rightarrow> (r # rs, kv'')))"

subsection \<open>The upstream service\<close>

text \<open>
  What a \<^verbatim>\<open>fetch\<close> of the generative-language API comes to:
  \<^item> \<open>FetchThrows message\<close>: the fetch, or reading the text of the first candidate out of
    the response, throws an error with this message;
  \<^item> \<open>NotOk statusText errorText\<close>: a response whose \<^verbatim>\<open>ok\<close> is false;
  \<^item> \<open>OkText t\<close>: a successful response whose first candidate has the text \<open>t\<close>.
\<close>

datatype fetch_outcome = FetchThrows jsstring | NotOk jsstring jsstring | OkText jsstring

text \<open>
  What is outside the worker during one request: the clock at the rate-limit check, at
  the cache lookup and at the cache store, and the answers of the upstream
  service to the detection prompt (built from the credential, the model and the text) and
  to the translation prompt (built from the credential, the model, the text and the two
  languages).
\<close>

record worker_world =
  w_now_rate :: int
  w_now_lookup :: int
  w_now_store :: int
  w_detect :: "jsstring option \<Rightarrow> jsstring \<Rightarrow> jsstring \<Rightarrow> fetch_outcome"
  w_translate :: "jsstring option \<Rightarrow> jsstring \<Rightarrow> jsstring \<Rightarrow> jsvalue \<Rightarrow> jsvalue \<Rightarrow> fetch_outcome"

text \<open>The worker's \<^verbatim>\<open>detectLanguage\<close>; \<open>Inl\<close> is the message of a thrown error.\<close>

definition worker_detectLanguage ::
  "worker_world \<Rightarrow> jsstring \<Rightarrow> jsstring option \<Rightarrow> jsstring \<Rightarrow> jsstring + jsstring" where
  "worker_detectLanguage w text apiKey model =
     (case w_detect w apiKey model (substring500 text) of
        FetchThrows m \<Rightarrow> Inl m
      | NotOk statusText errorText \<Rightarrow> Inl (js ''Language detection failed: '' @ statusText)
      | OkText t \<Rightarrow>
          (let detectedLang = toLowerCase (trim t)
           in if isTwoLetterCode detectedLang then Inr detectedLang else Inr (js ''en'')))"

text \<open>
  The worker's \<^verbatim>\<open>translateText\<close>.  It first looks the two languages up in
  \<^verbatim>\<open>LANGUAGE_NAMES\<close>, which converts them to property keys and throws when that conversion
  does; then it builds the prompt and fetches.
\<close>

definition worker_translateText ::
  "worker_world \<Rightarrow> jsstring \<Rightarrow> jsvalue \<Rightarrow> jsvalue \<Rightarrow> jsstring option \<Rightarrow> jsstring
     \<Rightarrow> jsstring + jsstring" where
  "worker_translateText w text sourceLang targetLang apiKey model =
     (if toStringThrows sourceLang \<or> toStringThrows targetLang then Inl cannotConvert
      else
        (case w_translate w apiKey model text sourceLang targetLang of
           FetchThrows m \<Rightarrow> Inl m
         | NotOk statusText errorText \<Rightarrow>
             Inl (js ''Translation failed: '' @ statusText @ js '' - '' @ errorText)
         | OkText t \<Rightarrow> Inr (trim t)))"

subsection \<open>The translation endpoint of the worker\<close>

record worker_request =
  cf_connecting_ip :: "jsstring option"
  w_body :: raw_body

text \<open>\<^verbatim>\<open>request.headers.get("CF-Connecting-IP") || "unknown"\<close>\<close>

definition clientIP_of :: "worker_request \<Rightarrow> jsstring" where
  "clientIP_of req =
     (case cf_connecting_ip req of
        None \<Rightarrow> js ''unknown''
      | Some a \<Rightarrow> if a = [] then js ''unknown'' else a)"

text \<open>
  The handlers return what they send or throw, the store as they leave it, and the calls
  they made to the translation cache and to the upstream service.
\<close>

type_synonym 's result = "(jsstring + response) \<times> 's \<times> call list"

text \<open>The three checks of the worker's endpoint, in the order of the source; \<open>None\<close> passes.\<close>

definition worker_validateRequest :: "body_fields \<Rightarrow> resp_body option" where
  "worker_validateRequest b =
     (let text = req_text b; targetLang = req_targetLang b; provider = req_provider b
      in if \<not> truthy text \<or> \<not> isString text \<or> length (trim (stringOf text)) = 0
         then Some InvalidText
         else if \<not> truthy targetLang then Some InvalidTargetLang
         else if \<not> strict_eq provider (JStr (js ''gemini'')) then Some InvalidProvider
         else None)"

text \<open>
  \<^verbatim>\<open>detectedSourceLang\<close> of the worker: the given language, or the detected one when the
  given one is \<^verbatim>\<open>"auto"\<close>; \<open>Inl\<close> when detection throws.
\<close>

definition worker_detectedSourceLang ::
  "env \<Rightarrow> worker_world \<Rightarrow> jsvalue \<Rightarrow> jsstring \<Rightarrow> jsstring + jsvalue" where
  "worker_detectedSourceLang e w sourceLang normalizedText =
     (if strict_eq sourceLang (JStr (js ''auto''))
      then (case worker_detectLanguage w normalizedText (GOOGLE_API_KEY e) (MODEL_NAME e) of
              Inl m \<Rightarrow> Inl m
            | Inr lang \<Rightarrow> Inr (JStr lang))
      else Inr sourceLang)"

text \<open>The detection call of a request, if it makes one.\<close>

definition detectionCalls :: "jsvalue \<Rightarrow> jsstring \<Rightarrow> call list" where
  "detectionCalls sourceLang normalizedText =
     (if strict_eq sourceLang (JStr (js ''auto'')) then [DetectCall (substring500 normalizedText)]
      else [])"

text \<open>
  The worker's cache lookup: \<^verbatim>\<open>cached && cached.translation\<close> on what the namespace
  returns for the key.
\<close>

definition worker_cacheLookup :: "worker_kv \<Rightarrow> jsstring \<Rightarrow> int \<Rightarrow> cache_record option" where
  "worker_cacheLookup kv cacheKey now =
     (case kv_get (cache_keys kv) cacheKey now of
        None \<Rightarrow> None
      | Some cached \<Rightarrow> if translation cached \<noteq> [] then Some cached else None)"

text \<open>
  The worker from the short-circuit test on: cache lookup, credential check, translation,
  cache store.  \<open>calls\<close> are the calls made before.
\<close>

definition worker_translate_stage ::
  "digest \<Rightarrow> env \<Rightarrow> worker_world \<Rightarrow> worker_kv \<Rightarrow> call list \<Rightarrow> jsstring \<Rightarrow> jsvalue
     \<Rightarrow> jsvalue \<Rightarrow> jsvalue \<Rightarrow> worker_kv result" where
  "worker_translate_stage sha1 e w kv calls normalizedText detectedSourceLang targetLang provider =
     (if strict_eq detectedSourceLang targetLang
      then (Inr \<lparr>status = 200, body = TranslationResult normalizedText False detectedSourceLang\<rparr>,
            kv, calls)
      else
        let cacheKey = generateCacheKey sha1 normalizedText detectedSourceLang targetLang provider
        in case worker_cacheLookup kv cacheKey (w_now_lookup w) of
             Some cached \<Rightarrow>
               (Inr \<lparr>status = 200,
                     body = TranslationResult (translation cached) True detectedSourceLang\<rparr>,
                kv, calls @ [CacheGet cacheKey])
           | None \<Rightarrow>
               if \<not> isSet (GOOGLE_API_KEY e)
               then (Inr \<lparr>status = 500, body = ConfigurationError\<rparr>, kv,
                     calls @ [CacheGet cacheKey])
               else
                 (case worker_translateText w normalizedText detectedSourceLang targetLang
                         (GOOGLE_API_KEY e) (MODEL_NAME e) of
                    Inl m \<Rightarrow>
                      (Inl m, kv,
                       calls @ [CacheGet cacheKey,
                         TranslateCall normalizedText detectedSourceLang targetLang])
                  | Inr translation' \<Rightarrow>
                      (Inr \<lparr>status = 200,
                            body = TranslationResult translation' False detectedSourceLang\<rparr>,
                       kv\<lparr>cache_keys :=
                            kv_put (cache_keys kv) cacheKey
                              \<lparr>translation = translation', timestamp = w_now_store w\<rparr>
                              CACHE_TTL (w_now_store w)\<rparr>,
                       calls @ [CacheGet cacheKey,
                         TranslateCall normalizedText detectedSourceLang targetLang,
                         CachePut cacheKey])))"

text \<open>The \<^verbatim>\<open>try\<close> block of the worker's translation endpoint.\<close>

definition worker_try ::
  "digest \<Rightarrow> env \<Rightarrow> worker_world \<Rightarrow> worker_kv \<Rightarrow> worker_request \<Rightarrow> worker_kv result" where
  "worker_try sha1 e w kv req =
     (case checkRateLimit kv (clientIP_of req) (w_now_rate w) of
        (Denied remaining retryAfter, kv1) \<Rightarrow>
          (Inr \<lparr>status = 429, body = TooManyRequests retryAfter\<rparr>, kv1, [])
      | (Allowed remaining, kv1) \<Rightarrow>
          (case w_body req of
             BodyThrows m \<Rightarrow> (Inl m, kv1, [])
           | Body b \<Rightarrow>
               (case worker_validateRequest b of
                  Some err \<Rightarrow> (Inr \<lparr>status = 400, body = err\<rparr>, kv1, [])
                | None \<Rightarrow>
                    let normalizedText = worker_normalizeText (stringOf (req_text b));
                        sourceLang = sourceLangOrDefault b;
                        calls = detectionCalls sourceLang normalizedText
                    in case worker_detectedSourceLang e w sourceLang normalizedText of
                         Inl m \<Rightarrow> (Inl m, kv1, calls)
                       | Inr detectedSourceLang \<Rightarrow>
                           worker_translate_stage sha1 e w kv1 calls normalizedText
                             detectedSourceLang (req_targetLang b) (req_provider b))))"

text \<open>
  The translation endpoint of the worker's \<^verbatim>\<open>fetch\<close>: its \<^verbatim>\<open>catch\<close> answers any thrown
  error with status 502.
\<close>

definition worker_fetch ::
  "digest \<Rightarrow> env \<Rightarrow> worker_world \<Rightarrow> worker_kv \<Rightarrow> worker_request
     \<Rightarrow> response \<times> worker_kv \<times> call list" where
  "worker_fetch sha1 e w kv req =
     (case worker_try sha1 e w kv req of
        (Inl message, kv', calls) \<Rightarrow> (\<lparr>status = 502, body = ServiceError message\<rparr>, kv', calls)
      | (Inr r, kv', calls) \<Rightarrow> (r, kv', calls))"

section \<open>The Express server\<close>

text \<open>\<^verbatim>\<open>(process.env.CACHE_TTL_HOURS || 72) * 60 * 60 * 1000\<close>\<close>

definition CACHE_TTL_MS :: "env \<Rightarrow> int" where
  "CACHE_TTL_MS e = (case CACHE_TTL_HOURS e of None \<Rightarrow> 72 | Some h \<Rightarrow> h) * 60 * 60 * 1000"

text \<open>\<^verbatim>\<open>translationCache\<close>, a \<^verbatim>\<open>Map\<close> from cache keys to cached translations.\<close>

type_synonym translationCache = "jsstring \<rightharpoonup> cache_record"

text \<open>
  What a \<^verbatim>\<open>generateContent\<close> call of the client library comes to: it throws an error with
  a message (also when reading the text of the response throws), or the response has a
  text.
\<close>

datatype sdk_outcome = SdkThrows jsstring | SdkText jsstring

text \<open>
  What is outside the server during one request: the clock at the cache lookup and at the
  cache store, the answers of the client library (constructed with the
  credential, for a model) to the detection prompt and to the translation prompt, and
  whether the rate-limit middleware of the \<^verbatim>\<open>express-rate-limit\<close> library finds the
  client over its limit.
\<close>

record server_world =
  s_now_lookup :: int
  s_now_store :: int
  s_detect :: "jsstring option \<Rightarrow> jsstring \<Rightarrow> jsstring \<Rightarrow> sdk_outcome"
  s_translate :: "jsstring option \<Rightarrow> jsstring \<Rightarrow> jsstring \<Rightarrow> jsvalue \<Rightarrow> jsvalue \<Rightarrow> sdk_outcome"
  s_over_limit :: bool

record server_request =
  ip :: jsstring
  s_body :: raw_body

text \<open>
  The server's \<^verbatim>\<open>detectLanguage\<close>: its \<^verbatim>\<open>catch\<close> returns \<^verbatim>\<open>"en"\<close>, so it never throws.
\<close>

definition detectLanguage :: "env \<Rightarrow> server_world \<Rightarrow> jsstring \<Rightarrow> jsstring" where
  "detectLanguage e w text =
     (case s_detect w (GOOGLE_API_KEY e) (MODEL_NAME e) (substring500 text) of
        SdkThrows m \<Rightarrow> js ''en''
      | SdkText t \<Rightarrow>
          (let detectedLang = toLowerCase (trim t)
           in if isTwoLetterCode detectedLang then detectedLang else js ''en''))"

text \<open>
  The two ways detection fails on the server: the call throws, or its answer, trimmed and
  lower-cased, is not two letters a to z.
\<close>

fun sdk_detection_fails :: "sdk_outcome \<Rightarrow> bool" where
  "sdk_detection_fails (SdkThrows m) = True"
| "sdk_detection_fails (SdkText r) = (\<not> isTwoLetterCode (toLowerCase (trim r)))"

text \<open>
  The server's \<^verbatim>\<open>translateText\<close>: its \<^verbatim>\<open>catch\<close> throws a new error whose message starts
  with \<^verbatim>\<open>Translation failed: \<close>, also for the error of looking a language up in
  \<^verbatim>\<open>LANGUAGE_NAMES\<close> when its conversion to a property key throws.
\<close>

definition translateText ::
  "env \<Rightarrow> server_world \<Rightarrow> jsstring \<Rightarrow> jsvalue \<Rightarrow> jsvalue \<Rightarrow> jsstring + jsstring" where
  "translateText e w text sourceLang targetLang =
     (if toStringThrows sourceLang \<or> toStringThrows targetLang
      then Inl (js ''Translation failed: '' @ cannotConvert)
      else
        (case s_translate w (GOOGLE_API_KEY e) (MODEL_NAME e) text sourceLang targetLang of
           SdkThrows m \<Rightarrow> Inl (js ''Translation failed: '' @ m)
         | SdkText t \<Rightarrow> Inr (trim t)))"

text \<open>The three checks of the handler, in the order of the source; \<open>None\<close> passes.\<close>

definition validateRequest :: "body_fields \<Rightarrow> resp_body option" where
  "validateRequest b =
     (let text = req_text b; targetLang = req_targetLang b; provider = req_provider b
      in if \<not> truthy text \<or> \<not> isString text \<or> length (trim (stringOf text)) = 0
         then Some InvalidText
         else if \<not> truthy targetLang \<or> \<not> isString targetLang then Some InvalidTargetLang
         else if \<not> strict_eq provider (JStr (js ''gemini'')) then Some InvalidProvider
         else None)"

text \<open>
  \<^verbatim>\<open>detectedSourceLang\<close> of the server: the given language, or the detected one when the
  given one is \<^verbatim>\<open>"auto"\<close>.
\<close>

definition detectedSourceLang :: "env \<Rightarrow> server_world \<Rightarrow> jsvalue \<Rightarrow> jsstring \<Rightarrow> jsvalue" where
  "detectedSourceLang e w sourceLang normalizedText =
     (if strict_eq sourceLang (JStr (js ''auto''))
      then JStr (detectLanguage e w normalizedText)
      else sourceLang)"

text \<open>
  The server's cache lookup:
  \<^verbatim>\<open>cached && Date.now() - cached.timestamp < CACHE_TTL_MS\<close> on the entry of the key.
\<close>

definition cacheLookup :: "env \<Rightarrow> translationCache \<Rightarrow> jsstring \<Rightarrow> int \<Rightarrow> cache_record option" where
  "cacheLookup e cache cacheKey now =
     (case cache cacheKey of
        None \<Rightarrow> None
      | Some cached \<Rightarrow> if now - timestamp cached < CACHE_TTL_MS e then Some cached else None)"

text \<open>
  The \<^verbatim>\<open>try\<close> block of the handler of \<^verbatim>\<open>POST /translate\<close>.  After a cache miss the handler
  logs a template literal of \<^verbatim>\<open>detectedSourceLang\<close> and \<^verbatim>\<open>targetLang\<close>, outside the
  \<^verbatim>\<open>try\<close> of \<^verbatim>\<open>translateText\<close>: when the conversion of one of them to a string throws, the
  error goes to the handler's \<^verbatim>\<open>catch\<close> as it is.
\<close>

definition post_translate_try ::
  "digest \<Rightarrow> env \<Rightarrow> server_world \<Rightarrow> translationCache \<Rightarrow> server_request
     \<Rightarrow> translationCache result" where
  "post_translate_try sha1 e w cache req =
     (case s_body req of
        BodyThrows m \<Rightarrow> (Inl m, cache, [])
      | Body b \<Rightarrow>
          (case validateRequest b of
             Some err \<Rightarrow> (Inr \<lparr>status = 400, body = err\<rparr>, cache, [])
           | None \<Rightarrow>
               let targetLang = req_targetLang b;
                   provider = req_provider b;
                   normalizedText = normalizeText (stringOf (req_text b));
                   sourceLang = sourceLangOrDefault b;
                   calls = detectionCalls sourceLang normalizedText;
                   detected = detectedSourceLang e w sourceLang normalizedText
               in if strict_eq detected targetLang
                  then (Inr \<lparr>status = 200, body = TranslationResult normalizedText False detected\<rparr>,
                        cache, calls)
                  else
                    let cacheKey = generateCacheKey sha1 normalizedText detected targetLang provider
                    in case cacheLookup e cache cacheKey (s_now_lookup w) of
                         Some cached \<Rightarrow>
                           (Inr \<lparr>status = 200,
                                 body = TranslationResult (translation cached) True detected\<rparr>,
                            cache, calls @ [CacheGet cacheKey])
                       | None \<Rightarrow>
                           if toStringThrows detected \<or> toStringThrows targetLang
                           then (Inl cannotConvert, cache, calls @ [CacheGet cacheKey])
                           else
                           (case translateText e w normalizedText detected targetLang of
                              Inl m \<Rightarrow>
                                (Inl m, cache,
                                 calls @ [CacheGet cacheKey,
                                   TranslateCall normalizedText detected targetLang])
                            | Inr translation' \<Rightarrow>
                                (Inr \<lparr>status = 200,
                                      body = TranslationResult translation' False detected\<rparr>,
                                 cache(cacheKey \<mapsto>
                                   \<lparr>translation = translation', timestamp = s_now_store w\<rparr>),
                                 calls @ [CacheGet cacheKey,
                                   TranslateCall normalizedText detected targetLang,
                                   CachePut cacheKey]))))"

text \<open>The status the handler's \<^verbatim>\<open>catch\<close> chooses from the message of the error.\<close>

definition statusCode :: "jsstring \<Rightarrow> nat" where
  "statusCode message =
     (if includes_str message (js ''API key'') then 401
      else if includes_str message (js ''quota'') then 429
      else if includes_str message (js ''Translation failed'') then 502
      else 500)"

text \<open>The handler of \<^verbatim>\<open>POST /translate\<close>.\<close>

definition post_translate ::
  "digest \<Rightarrow> env \<Rightarrow> server_world \<Rightarrow> translationCache \<Rightarrow> server_request
     \<Rightarrow> response \<times> translationCache \<times> call list" where
  "post_translate sha1 e w cache req =
     (case post_translate_try sha1 e w cache req of
        (Inl message, cache', calls) \<Rightarrow>
          (\<lparr>status = statusCode message,
            body = ServiceError
              (if NODE_ENV e = Some (js ''development'') then message
               else js ''An error occurred during translation'')\<rparr>,
           cache', calls)
      | (Inr r, cache', calls) \<Rightarrow> (r, cache', calls))"

text \<open>
  The rate-limit middleware, mounted on \<^verbatim>\<open>/translate\<close> before the handler: it is skipped
  for a trusted address; otherwise, when the library finds the client over its limit, it
  answers with the configured message under the library's status 429, and the handler
  does not run.  \<open>None\<close> is \<^verbatim>\<open>next()\<close>.
\<close>

definition limiter :: "env \<Rightarrow> server_world \<Rightarrow> server_request \<Rightarrow> response option" where
  "limiter e w req =
     (if ip req \<in> set (TRUSTED_IPS e) then None
      else if s_over_limit w then Some \<lparr>status = 429, body = LimiterMessage\<rparr>
      else None)"

text \<open>
  What is mounted on \<^verbatim>\<open>/translate\<close>, for a request that the JSON middleware and the CORS
  middleware before it have passed on: the rate-limit middleware, then the handler.
\<close>

definition server_translate ::
  "digest \<Rightarrow> env \<Rightarrow> server_world \<Rightarrow> translationCache \<Rightarrow> server_request
     \<Rightarrow> response \<times> translationCache \<times> call list" where
  "server_translate sha1 e w cache req =
     (case limiter e w req of
        Some r \<Rightarrow> (r, cache, [])
      | None \<Rightarrow> post_translate sha1 e w cache req)"

subsection \<open>The middleware before the rate limiter\<close>

text \<open>
  \<^verbatim>\<open>express.json()\<close>, the first middleware: it cannot read the body and passes an error
  with a message to the error handler, or it calls \<^verbatim>\<open>next()\<close> and leaves \<^verbatim>\<open>req.body\<close> as
  the handler will meet it.
\<close>

datatype json_outcome = JsonError jsstring | JsonNext raw_body

text \<open>A \<^verbatim>\<open>POST /translate\<close> request as it arrives at the server.\<close>

record http_request =
  h_ip :: jsstring
  h_origin :: "jsstring option"
  h_json :: json_outcome

text \<open>\<^verbatim>\<open>s.startsWith(prefix)\<close>\<close>

definition startsWith :: "jsstring \<Rightarrow> jsstring \<Rightarrow> bool" where
  "startsWith s prefix = (take (length prefix) s = prefix)"

text \<open>
  The \<^verbatim>\<open>origin\<close> function of the CORS middleware, the second middleware; \<open>False\<close> is the
  error \<^verbatim>\<open>Not allowed by CORS\<close>.  \<open>allowedOrigins\<close> is the constant of that name: the
  entries of \<^verbatim>\<open>ALLOWED_ORIGINS\<close>, split at commas and trimmed, or \<^verbatim>\<open>["*"]\<close> when the variable
  is unset.
\<close>

definition corsAllows :: "jsstring list \<Rightarrow> jsstring option \<Rightarrow> bool" where
  "corsAllows allowedOrigins origin =
     (case origin of
        None \<Rightarrow> True
      | Some orig \<Rightarrow>
          if orig = [] then True
          else if startsWith orig (js ''chrome-extension://'') then True
          else js ''*'' \<in> set allowedOrigins \<or> orig \<in> set allowedOrigins)"

text \<open>The error handler, which answers an error a middleware passed on.\<close>

definition errorHandler :: "env \<Rightarrow> jsstring \<Rightarrow> response" where
  "errorHandler e message =
     (if message = js ''Not allowed by CORS'' then \<lparr>status = 403, body = CorsError\<rparr>
      else \<lparr>status = 500,
            body = InternalServerError
              (if NODE_ENV e = Some (js ''development'') then message
               else js ''An unexpected error occurred'')\<rparr>)"

text \<open>
  A \<^verbatim>\<open>POST /translate\<close> request to the server, through the application: the JSON
  middleware, the CORS middleware, the rate-limit middleware, the handler.
\<close>

definition app_post_translate ::
  "digest \<Rightarrow> env \<Rightarrow> server_world \<Rightarrow> jsstring list \<Rightarrow> translationCache \<Rightarrow> http_request
     \<Rightarrow> response \<times> translationCache \<times> call list" where
  "app_post_translate sha1 e w allowedOrigins cache hreq =
     (case h_json hreq of
        JsonError message \<Rightarrow> (errorHandler e message, cache, [])
      | JsonNext rawBody \<Rightarrow>
          if \<not> corsAllows allowedOrigins (h_origin hreq)
          then (errorHandler e (js ''Not allowed by CORS''), cache, [])
          else server_translate sha1 e w cache \<lparr>ip = h_ip hreq, s_body = rawBody\<rparr>)"

section \<open>Example requests and surroundings\<close>

text \<open>
  The requests of the repository's test script and simple surroundings to run them in: an
  environment with a credential, a digest that concatenates the four values, an upstream
  service that detects English and translates to \<^verbatim>\<open>Xin chao\<close>, an empty namespace, and a
  namespace whose counter for the client \<^verbatim>\<open>unknown\<close> stands at the maximum in a window
  started at time 0.
\<close>

definition test_env :: env where
  "test_env = \<lparr>GOOGLE_API_KEY = Some (js ''key''), GEMINI_MODEL = None, NODE_ENV = None,
      CACHE_TTL_HOURS = None, TRUSTED_IPS = []\<rparr>"

definition test_digest :: digest where
  "test_digest text sourceLang targetLang provider =
     text @ stringOf sourceLang @ stringOf targetLang @ stringOf provider"

definition hello_world :: body_fields where
  "hello_world = \<lparr>req_text = JStr (js ''Hello world''), req_sourceLang = JStr (js ''en''),
      req_targetLang = JStr (js ''vi''), req_provider = JStr (js ''gemini'')\<rparr>"

definition empty_text :: body_fields where
  "empty_text = \<lparr>req_text = JStr [], req_sourceLang = JUndefined,
      req_targetLang = JStr (js ''vi''), req_provider = JStr (js ''gemini'')\<rparr>"

definition bonjour_auto :: body_fields where
  "bonjour_auto = \<lparr>req_text = JStr (js ''Bonjour''), req_sourceLang = JUndefined,
      req_targetLang = JStr (js ''en''), req_provider = JStr (js ''gemini'')\<rparr>"

definition test_worker_world :: worker_world where
  "test_worker_world = \<lparr>w_now_rate = 1000, w_now_lookup = 1000, w_now_store = 2000,
      w_detect = (\<lambda>k m t. OkText (js ''en'')),
      w_translate = (\<lambda>k m t s l. OkText (js ''Xin chao''))\<rparr>"

definition test_server_world :: server_world where
  "test_server_world = \<lparr>s_now_lookup = 1000, s_now_store = 2000,
      s_detect = (\<lambda>k m t. SdkText (js ''en'')),
      s_translate = (\<lambda>k m t s l. SdkText (js ''Xin chao'')),
      s_over_limit = False\<rparr>"

definition later_server_world :: server_world where
  "later_server_world = test_server_world\<lparr>s_now_lookup := 3000, s_now_store := 4000\<rparr>"

definition later_worker_world :: worker_world where
  "later_worker_world =
     test_worker_world\<lparr>w_now_rate := 3000, w_now_lookup := 3000, w_now_store := 4000\<rparr>"

definition empty_kv :: worker_kv where
  "empty_kv = \<lparr>ratelimit_keys = Map.empty, cache_keys = Map.empty\<rparr>"

definition full_window_kv :: worker_kv where
  "full_window_kv =
     \<lparr>ratelimit_keys = [js ''unknown'' \<mapsto>
        \<lparr>kv_value = \<lparr>count = 60, windowStart = 0\<rparr>, kv_expires = 60500\<rparr>],
      cache_keys = Map.empty\<rparr>"

text \<open>A client library that rejects calls made without a credential.\<close>

definition key_checking_sdk ::
  "jsstring option \<Rightarrow> jsstring \<Rightarrow> jsstring \<Rightarrow> jsvalue \<Rightarrow> jsvalue \<Rightarrow> sdk_outcome" where
  "key_checking_sdk apiKey model text sourceLang targetLang =
     (if isSet apiKey then SdkText (js ''Xin chao'')
      else SdkThrows (js ''API key not valid. Please pass a valid API key.''))"

section \<open>Properties of the normaliser\<close>

lemma isWhiteSpace_SP [simp]: "isWhiteSpace SP"
  by (simp add: isWhiteSpace_def SP_def)

lemma isWhiteSpace_LF [simp]: "isWhiteSpace LF"
  by (simp add: isWhiteSpace_def LF_def)

lemma dropWhile_rwr:
  "x = [] \<or> \<not> isWhiteSpace (hd x) \<Longrightarrow>
     dropWhile isWhiteSpace (replace_ws_runs x) = replace_ws_runs x"
  by (cases x) auto

lemma hd_dropWhile_ws:
  "dropWhile isWhiteSpace cs = [] \<or> \<not> isWhiteSpace (hd (dropWhile isWhiteSpace cs))"
  using hd_dropWhile by blast

lemma rwr_idem: "replace_ws_runs (replace_ws_runs x) = replace_ws_runs x"
proof (induction x rule: replace_ws_runs.induct)
  case 1
  show ?case by simp
next
  case (2 c cs)
  show ?case
  proof (cases "isWhiteSpace c")
    case True
    with 2 show ?thesis
      by (simp add: dropWhile_rwr [OF hd_dropWhile_ws])
  next
    case False
    with 2 show ?thesis by simp
  qed
qed

lemma rwr_eq_Nil [simp]: "replace_ws_runs x = [] \<longleftrightarrow> x = []"
  by (cases x) auto

lemma hd_rwr: "x \<noteq> [] \<Longrightarrow> \<not> isWhiteSpace (hd x) \<Longrightarrow> hd (replace_ws_runs x) = hd x"
  by (cases x) auto

lemma last_rwr:
  "x \<noteq> [] \<Longrightarrow> \<not> isWhiteSpace (last x) \<Longrightarrow> last (replace_ws_runs x) = last x"
proof (induction x rule: replace_ws_runs.induct)
  case 1
  then show ?case by simp
next
  case (2 c cs)
  show ?case
  proof (cases "isWhiteSpace c")
    case True
    with "2.prems" have cs: "cs \<noteq> []" by auto
    with "2.prems" have l: "\<not> isWhiteSpace (last cs)" by simp
    have d: "dropWhile isWhiteSpace cs \<noteq> []"
      using cs l by (metis dropWhile_eq_Nil_conv last_in_set)
    have "last (dropWhile isWhiteSpace cs) = last cs"
      using d by (metis append_Nil2 last_appendR takeWhile_dropWhile_id)
    have ne: "replace_ws_runs (dropWhile isWhiteSpace cs) \<noteq> []"
      using d by simp
    have "last (replace_ws_runs (c # cs)) = last (replace_ws_runs (dropWhile isWhiteSpace cs))"
      using True ne by auto
    also have "\<dots> = last (dropWhile isWhiteSpace cs)"
      using 2(1) [OF True d] l \<open>last (dropWhile isWhiteSpace cs) = last cs\<close> by simp
    finally show ?thesis
      using \<open>last (dropWhile isWhiteSpace cs) = last cs\<close> cs by simp
  next
    case False
    show ?thesis
    proof (cases "cs = []")
      case True
      with False show ?thesis by simp
    next
      case ne: False
      with 2(2) [OF False ne] "2.prems" False show ?thesis by simp
    qed
  qed
qed

lemma clean_ends_rwr: "clean_ends x \<Longrightarrow> clean_ends (replace_ws_runs x)"
  by (auto simp: clean_ends_def hd_rwr last_rwr)

lemma clean_ends_trim: "clean_ends (trim s)"
proof -
  let ?d = "dropWhile isWhiteSpace s"
  let ?r = "dropWhile isWhiteSpace (rev ?d)"
  show ?thesis
  proof (cases "?r = []")
    case True
    then show ?thesis by (simp add: clean_ends_def trim_def)
  next
    case False
    then have l: "\<not> isWhiteSpace (hd ?r)" using hd_dropWhile by blast
    then have last: "\<not> isWhiteSpace (last (rev ?r))" using False by (simp add: last_rev)
    from False have "?d \<noteq> []" by (cases "?d") auto
    then have hdd: "\<not> isWhiteSpace (hd ?d)" using hd_dropWhile by blast
    have "\<exists>ys. rev ?d = ys @ ?r" by (metis takeWhile_dropWhile_id)
    then obtain ys where "rev ?d = ys @ ?r" ..
    then have "?d = rev ?r @ rev ys" by (metis rev_append rev_rev_ident)
    then have "hd ?d = hd (rev ?r)" using False by (metis hd_append2 rev_is_Nil_conv)
    with hdd last False show ?thesis by (simp add: clean_ends_def trim_def)
  qed
qed

lemma trim_clean: "clean_ends x \<Longrightarrow> trim x = x"
proof (cases "x = []")
  case True
  then show ?thesis by (simp add: trim_def)
next
  case False
  assume "clean_ends x"
  with False have h: "\<not> isWhiteSpace (hd x)" and l: "\<not> isWhiteSpace (last x)"
    by (auto simp: clean_ends_def)
  from False h have 1: "dropWhile isWhiteSpace x = x" by (cases x) auto
  from False l have "\<not> isWhiteSpace (hd (rev x))" by (simp add: hd_rev)
  with False have 2: "dropWhile isWhiteSpace (rev x) = rev x" by (cases "rev x") auto
  show ?thesis by (simp add: trim_def 1 2)
qed

lemma normalizeLine_idem: "normalizeLine (normalizeLine l) = normalizeLine l"
  by (simp add: normalizeLine_def trim_clean clean_ends_rwr clean_ends_trim rwr_idem)

lemma split_nl_ne [simp]: "split_nl s \<noteq> []"
  by (induction s) (auto split: list.splits)

lemma split_nl_Cons:
  "split_nl (c # cs) =
     (if c = LF then [] # split_nl cs else (c # hd (split_nl cs)) # tl (split_nl cs))"
  by (cases "split_nl cs") auto


lemma LF_notin_split_nl: "l \<in> set (split_nl s) \<Longrightarrow> LF \<notin> set l"
proof (induction s arbitrary: l)
  case Nil
  then show ?case by simp
next
  case (Cons c cs)
  show ?case
  proof (cases "c = LF")
    case True
    with Cons show ?thesis by auto
  next
    case False
    from Cons.prems False have "l = c # hd (split_nl cs) \<or> l \<in> set (tl (split_nl cs))"
      by (simp add: split_nl_Cons del: split_nl.simps(2))
    then show ?thesis
    proof
      assume "l = c # hd (split_nl cs)"
      moreover have "LF \<notin> set (hd (split_nl cs))"
        by (rule Cons.IH) simp
      ultimately show ?thesis using False by auto
    next
      assume "l \<in> set (tl (split_nl cs))"
      then have "l \<in> set (split_nl cs)" by (rule list.set_sel(2) [rotated]) simp
      then show ?thesis by (rule Cons.IH)
    qed
  qed
qed

lemma join_split_nl: "join_nl (split_nl s) = s"
proof (induction s)
  case Nil
  show ?case by simp
next
  case (Cons c cs)
  obtain l ls where e: "split_nl cs = l # ls" by (cases "split_nl cs") auto
  with Cons show ?case by (cases ls) auto
qed

lemma split_nl_append_LF:
  "LF \<notin> set l \<Longrightarrow> split_nl (l @ LF # r) = l # split_nl r"
  by (induction l) (auto simp: split_nl_Cons simp del: split_nl.simps(2))

lemma split_nl_no_LF: "LF \<notin> set l \<Longrightarrow> split_nl l = [l]"
  by (induction l) auto

lemma split_join_nl:
  "ls \<noteq> [] \<Longrightarrow> \<forall>l\<in>set ls. LF \<notin> set l \<Longrightarrow> split_nl (join_nl ls) = ls"
proof (induction ls rule: join_nl.induct)
  case 1
  then show ?case by simp
next
  case (2 l)
  then show ?case by (simp add: split_nl_no_LF)
next
  case (3 l v va)
  then show ?case by (simp add: split_nl_append_LF del: split_nl.simps(2))
qed

lemma isWhiteSpace_notin_rwr:
  "isWhiteSpace c \<Longrightarrow> c \<noteq> SP \<Longrightarrow> c \<notin> set (replace_ws_runs x)"
  by (induction x rule: replace_ws_runs.induct) auto

lemma LF_neq_SP: "LF \<noteq> SP"
  by (simp add: LF_def SP_def)

lemma LF_notin_normalizeLine: "LF \<notin> set (normalizeLine l)"
  by (simp add: normalizeLine_def isWhiteSpace_notin_rwr LF_neq_SP)

lemma split_nl_normalizeLines:
  "split_nl (normalizeLines s) = map normalizeLine (split_nl s)"
  by (simp add: normalizeLines_def split_join_nl LF_notin_normalizeLine)




lemma nl3_match_shape:
  "c = LF \<and> 3 \<le> length (takeWhile (\<lambda>d. d = LF) (c # cs)) \<longleftrightarrow>
     c = LF \<and> (\<exists>r. cs = LF # LF # r)"
  by (cases cs; cases "tl cs") (auto split: if_splits)



lemma replace_nl3_match:
  "c = LF \<and> 3 \<le> length (takeWhile (\<lambda>d. d = LF) (c # cs)) \<Longrightarrow>
     replace_nl3 (c # cs) = LF # LF # replace_nl3 (dropWhile (\<lambda>d. d = LF) cs)"
  by (subst replace_nl3.simps(2)) (rule if_P)

lemma replace_nl3_skip:
  "\<not> (c = LF \<and> 3 \<le> length (takeWhile (\<lambda>d. d = LF) (c # cs))) \<Longrightarrow>
     replace_nl3 (c # cs) = c # replace_nl3 cs"
  by (subst replace_nl3.simps(2)) (rule if_not_P)





lemma run_replace_nl3:
  "length (takeWhile (\<lambda>d. d = LF) (replace_nl3 u)) = min 2 (length (takeWhile (\<lambda>d. d = LF) u))"
proof (induction u rule: replace_nl3.induct)
  case 1
  show ?case by simp
next
  case (2 c cs)
  show ?case
  proof (cases "c = LF \<and> 3 \<le> length (takeWhile (\<lambda>d. d = LF) (c # cs))")
    case True
    have "takeWhile (\<lambda>d. d = LF) (dropWhile (\<lambda>d. d = LF) cs) = []"
      by (metis (mono_tags, lifting) hd_dropWhile takeWhile_eq_Nil_iff)
    with 2(1) [OF True] have "takeWhile (\<lambda>d. d = LF) (replace_nl3 (dropWhile (\<lambda>d. d = LF) cs)) = []"
      by simp
    with True show ?thesis by auto
  next
    case False
    with 2(2) [OF False] show ?thesis by (auto split: if_splits)
  qed
qed

lemma replace_nl3_idem: "replace_nl3 (replace_nl3 u) = replace_nl3 u"
proof (induction u rule: replace_nl3.induct)
  case 1
  show ?case by simp
next
  case (2 c cs)
  show ?case
  proof (cases "c = LF \<and> 3 \<le> length (takeWhile (\<lambda>d. d = LF) (c # cs))")
    case True
    let ?r = "replace_nl3 (dropWhile (\<lambda>d. d = LF) cs)"
    have "takeWhile (\<lambda>d. d = LF) (dropWhile (\<lambda>d. d = LF) cs) = []"
      by (metis (mono_tags, lifting) hd_dropWhile takeWhile_eq_Nil_iff)
    then have r0: "takeWhile (\<lambda>d. d = LF) ?r = []"
      using run_replace_nl3 [of "dropWhile (\<lambda>d. d = LF) cs"] by simp
    have n1: "\<not> (LF = LF \<and> 3 \<le> length (takeWhile (\<lambda>d. d = LF) (LF # LF # ?r)))"
      using r0 by simp
    have n2: "\<not> (LF = LF \<and> 3 \<le> length (takeWhile (\<lambda>d. d = LF) (LF # ?r)))"
      using r0 by simp
    have "replace_nl3 (LF # LF # ?r) = LF # LF # replace_nl3 ?r"
      by (simp only: replace_nl3_skip [OF n1] replace_nl3_skip [OF n2])
    with 2(1) [OF True] show ?thesis by (simp only: replace_nl3_match [OF True])
  next
    case False
    have "length (takeWhile (\<lambda>d. d = LF) (c # replace_nl3 cs))
            = min 3 (length (takeWhile (\<lambda>d. d = LF) (c # cs)))"
      using run_replace_nl3 [of cs] by simp
    with False have n: "\<not> (c = LF \<and> 3 \<le> length (takeWhile (\<lambda>d. d = LF) (c # replace_nl3 cs)))"
      by auto
    show ?thesis
      by (simp only: replace_nl3_skip [OF False] replace_nl3_skip [OF n] 2(2) [OF False])
  qed
qed

lemma set_split_nl_dropWhile:
  "set (split_nl (dropWhile (\<lambda>d. d = LF) cs)) \<subseteq> set (split_nl cs)"
  by (induction cs) auto

lemma set_split_nl_hd_tl:
  "hd (split_nl a) = hd (split_nl b) \<Longrightarrow> set (tl (split_nl a)) \<subseteq> set (tl (split_nl b)) \<Longrightarrow>
     set (split_nl a) \<subseteq> set (split_nl b)"
  by (cases "split_nl a"; cases "split_nl b") auto

lemma lines_replace_nl3:
  "hd (split_nl (replace_nl3 u)) = hd (split_nl u) \<and>
   set (tl (split_nl (replace_nl3 u))) \<subseteq> set (tl (split_nl u))"
proof (induction u rule: replace_nl3.induct)
  case 1
  show ?case by simp
next
  case (2 c cs)
  show ?case
  proof (cases "c = LF \<and> 3 \<le> length (takeWhile (\<lambda>d. d = LF) (c # cs))")
    case True
    then obtain r where cs: "cs = LF # LF # r" unfolding nl3_match_shape by auto
    let ?d = "dropWhile (\<lambda>d. d = LF) cs"
    have e: "replace_nl3 (c # cs) = LF # LF # replace_nl3 ?d"
      using True by (rule replace_nl3_match)
    have "set (split_nl (replace_nl3 ?d)) \<subseteq> set (split_nl ?d)"
      using 2(1) [OF True] by (simp add: set_split_nl_hd_tl)
    also have "\<dots> \<subseteq> set (split_nl cs)" by (rule set_split_nl_dropWhile)
    finally have "set (split_nl (replace_nl3 ?d)) \<subseteq> set (split_nl cs)" .
    moreover have "[] \<in> set (split_nl cs)" by (simp add: cs)
    moreover have "c = LF" using True by simp
    ultimately show ?thesis unfolding e by simp
  next
    case False
    then have e: "replace_nl3 (c # cs) = c # replace_nl3 cs"
      by (rule replace_nl3_skip)
    from 2(2) [OF False] have h: "hd (split_nl (replace_nl3 cs)) = hd (split_nl cs)"
      and t: "set (tl (split_nl (replace_nl3 cs))) \<subseteq> set (tl (split_nl cs))" by auto
    have s: "set (split_nl (replace_nl3 cs)) \<subseteq> set (split_nl cs)"
      using h t by (rule set_split_nl_hd_tl)
    show ?thesis
      unfolding e using h t s by (simp add: split_nl_Cons del: split_nl.simps(2) replace_nl3.simps)
  qed
qed

lemma set_split_nl_replace_nl3: "set (split_nl (replace_nl3 u)) \<subseteq> set (split_nl u)"
proof
  fix l assume "l \<in> set (split_nl (replace_nl3 u))"
  then have "l = hd (split_nl (replace_nl3 u)) \<or> l \<in> set (tl (split_nl (replace_nl3 u)))"
    by (cases "split_nl (replace_nl3 u)") auto
  then show "l \<in> set (split_nl u)"
    using lines_replace_nl3 [of u] by (cases "split_nl u") auto
qed

lemma normalizeText_lines_fixed:
  "l \<in> set (split_nl (normalizeText s)) \<Longrightarrow> normalizeLine l = l"
proof -
  assume "l \<in> set (split_nl (normalizeText s))"
  then have "l \<in> set (split_nl (normalizeLines s))"
    using set_split_nl_replace_nl3 unfolding normalizeText_def by blast
  then show ?thesis by (auto simp: split_nl_normalizeLines normalizeLine_idem)
qed

lemma normalizeText_idem: "normalizeText (normalizeText x) = normalizeText x"
proof -
  have "map normalizeLine (split_nl (normalizeText x)) = split_nl (normalizeText x)"
    by (rule map_idI) (rule normalizeText_lines_fixed)
  then have "normalizeLines (normalizeText x) = normalizeText x"
    by (simp add: normalizeLines_def join_split_nl)
  then have "normalizeText (normalizeText x) = replace_nl3 (normalizeText x)"
    by (simp add: normalizeText_def)
  then show ?thesis by (simp add: normalizeText_def replace_nl3_idem)
qed

lemma worker_normalizeText_idem: "worker_normalizeText (worker_normalizeText x) = worker_normalizeText x"
  using normalizeLine_idem [of x] by (simp add: worker_normalizeText_def normalizeLine_def)





text \<open>
  C10: normalising twice gives the same text as normalising once, for the server's
  normaliser and for the worker's.
\<close>

theorem normalizeText_idempotent:
  "normalizeText (normalizeText x) = normalizeText x \<and>
   worker_normalizeText (worker_normalizeText x) = worker_normalizeText x"
  by (simp add: normalizeText_idem worker_normalizeText_idem)

section \<open>Evaluation and basic facts of the handlers\<close>

lemmas test_defs = test_env_def test_digest_def hello_world_def empty_text_def
  test_worker_world_def test_server_world_def empty_kv_def full_window_kv_def
  bonjour_auto_def later_server_world_def later_worker_world_def key_checking_sdk_def

lemmas eval_defs = worker_validateRequest_def validateRequest_def worker_fetch_def worker_try_def
  checkRateLimit_def kv_get_def kv_put_def clientIP_of_def worker_detectedSourceLang_def
  detectionCalls_def sourceLangOrDefault_def worker_translate_stage_def generateCacheKey_def
  worker_cacheLookup_def worker_translateText_def worker_detectLanguage_def MODEL_NAME_def
  worker_normalizeText_def RATE_LIMIT_MAX_def RATE_LIMIT_WINDOW_def CACHE_TTL_def
  server_translate_def limiter_def post_translate_def post_translate_try_def
  detectedSourceLang_def detectLanguage_def translateText_def cacheLookup_def CACHE_TTL_MS_def
  statusCode_def normalizeText_def normalizeLines_def normalizeLine_def
  toLowerCase_def lowerUnit_def isLowerLetter_def substring500_def
  app_post_translate_def corsAllows_def startsWith_def errorHandler_def cannotConvert_def
  js_def trim_def isWhiteSpace_def SP_def LF_def Let_def

lemma strict_eq_JStr [simp]: "strict_eq v (JStr s) \<longleftrightarrow> v = JStr s"
  by (cases v) auto

lemma trim_Nil [simp]: "trim [] = []"
  by (simp add: trim_def)

lemma text_check:
  "(\<not> truthy v \<or> \<not> isString v \<or> length (trim (stringOf v)) = 0) \<longleftrightarrow>
     \<not> (isString v \<and> trim (stringOf v) \<noteq> [])"
  by (cases v) auto

lemma targetLang_check:
  "(\<not> truthy v \<or> \<not> isString v) \<longleftrightarrow> \<not> (isString v \<and> stringOf v \<noteq> [])"
  by (cases v) auto

lemma validateRequest_first_failure:
  "validateRequest b =
     (if \<not> (isString (req_text b) \<and> trim (stringOf (req_text b)) \<noteq> []) then Some InvalidText
      else if \<not> (isString (req_targetLang b) \<and> stringOf (req_targetLang b) \<noteq> [])
        then Some InvalidTargetLang
      else if req_provider b \<noteq> JStr (js ''gemini'') then Some InvalidProvider
      else None)"
  unfolding validateRequest_def Let_def text_check targetLang_check by simp

lemma worker_validateRequest_first_failure:
  "worker_validateRequest b =
     (if \<not> (isString (req_text b) \<and> trim (stringOf (req_text b)) \<noteq> []) then Some InvalidText
      else if \<not> truthy (req_targetLang b) then Some InvalidTargetLang
      else if req_provider b \<noteq> JStr (js ''gemini'') then Some InvalidProvider
      else None)"
  unfolding worker_validateRequest_def Let_def text_check by simp

lemma checkRateLimit_cache_keys:
  "cache_keys (snd (checkRateLimit kv clientIP now)) = cache_keys kv"
  by (simp add: checkRateLimit_def Let_def split: option.splits)

lemma detectionCalls_only_detect:
  "CacheGet k \<notin> set (detectionCalls sourceLang t) \<and>
   CachePut k \<notin> set (detectionCalls sourceLang t) \<and>
   TranslateCall t' s l \<notin> set (detectionCalls sourceLang t)"
  by (simp add: detectionCalls_def)

lemma worker_cacheLookup_checkRateLimit:
  "worker_cacheLookup (snd (checkRateLimit kv clientIP now)) k t = worker_cacheLookup kv k t"
  by (simp add: worker_cacheLookup_def checkRateLimit_cache_keys)

lemma worker_fetch_denied:
  "fst (checkRateLimit kv (clientIP_of req) (w_now_rate w)) = Denied r a \<Longrightarrow>
     worker_fetch sha e w kv req =
       (\<lparr>status = 429, body = TooManyRequests a\<rparr>,
        snd (checkRateLimit kv (clientIP_of req) (w_now_rate w)), [])"
  by (cases "checkRateLimit kv (clientIP_of req) (w_now_rate w)")
     (simp add: worker_fetch_def worker_try_def)

lemma worker_fetch_invalid:
  "fst (checkRateLimit kv (clientIP_of req) (w_now_rate w)) = Allowed r \<Longrightarrow>
   w_body req = Body b \<Longrightarrow> worker_validateRequest b = Some err \<Longrightarrow>
     worker_fetch sha e w kv req =
       (\<lparr>status = 400, body = err\<rparr>,
        snd (checkRateLimit kv (clientIP_of req) (w_now_rate w)), [])"
  by (cases "checkRateLimit kv (clientIP_of req) (w_now_rate w)")
     (simp add: worker_fetch_def worker_try_def)

lemma server_translate_limited:
  "limiter e w req = Some r \<Longrightarrow> server_translate sha e w cache req = (r, cache, [])"
  by (simp add: server_translate_def)

lemma server_translate_invalid:
  "limiter e w req = None \<Longrightarrow> s_body req = Body b \<Longrightarrow> validateRequest b = Some err \<Longrightarrow>
     server_translate sha e w cache req = (\<lparr>status = 400, body = err\<rparr>, cache, [])"
  by (simp add: server_translate_def post_translate_def post_translate_try_def)

section \<open>C2: language detection that fails\<close>

lemma detect_en: "isTwoLetterCode (toLowerCase (trim (js ''en''))) \<and> toLowerCase (trim (js ''en'')) = js ''en''"
  by (simp add: js_def toLowerCase_def lowerUnit_def trim_def isWhiteSpace_def isLowerLetter_def)

lemma detectLanguage_fallback:
  "sdk_detection_fails (s_detect w (GOOGLE_API_KEY e) (MODEL_NAME e) (substring500 t)) \<Longrightarrow>
     detectLanguage e w t = js ''en''"
  by (cases "s_detect w (GOOGLE_API_KEY e) (MODEL_NAME e) (substring500 t)")
     (simp_all add: detectLanguage_def Let_def)

lemma detectLanguage_answer_en:
  "detectLanguage e (w\<lparr>s_detect := \<lambda>k m t. SdkText (js ''en'')\<rparr>) t = js ''en''"
  by (simp add: detectLanguage_def Let_def detect_en)

lemma server_translate_detect_fallback:
  assumes "s_body req = Body b"
    and "sdk_detection_fails (s_detect w (GOOGLE_API_KEY e) (MODEL_NAME e)
           (substring500 (normalizeText (stringOf (req_text b)))))"
  shows "server_translate sha e w cache req =
         server_translate sha e (w\<lparr>s_detect := \<lambda>k m t. SdkText (js ''en'')\<rparr>) cache req"
proof -
  let ?w = "w\<lparr>s_detect := \<lambda>k m t. SdkText (js ''en'')\<rparr>"
  let ?t = "normalizeText (stringOf (req_text b))"
  have d: "detectedSourceLang e ?w sl ?t = detectedSourceLang e w sl ?t" for sl
    using detectLanguage_fallback [OF assms(2)]
    by (simp add: detectedSourceLang_def detectLanguage_answer_en)
  have t: "translateText e ?w = translateText e w"
    by (simp add: translateText_def fun_eq_iff)
  have l: "limiter e ?w req = limiter e w req"
    by (simp add: limiter_def)
  have n: "s_now_lookup ?w = s_now_lookup w" "s_now_store ?w = s_now_store w"
    by simp_all
  have "post_translate_try sha e ?w cache req = post_translate_try sha e w cache req"
    unfolding post_translate_try_def Let_def assms(1) raw_body.case d t n ..
  then have p: "post_translate sha e ?w cache req = post_translate sha e w cache req"
    by (simp add: post_translate_def)
  show ?thesis unfolding server_translate_def l p ..
qed

lemma worker_detect_fallback:
  "w_detect w apiKey model (substring500 t) = OkText r \<Longrightarrow>
   \<not> isTwoLetterCode (toLowerCase (trim r)) \<Longrightarrow>
     worker_detectLanguage w t apiKey model = Inr (js ''en'')"
  by (simp add: worker_detectLanguage_def Let_def)

lemma worker_detect_failure:
  assumes "fst (checkRateLimit kv (clientIP_of req) (w_now_rate w)) = Allowed r"
    and "w_body req = Body b" and "worker_validateRequest b = None"
    and "sourceLangOrDefault b = JStr (js ''auto'')"
    and "worker_detectLanguage w (worker_normalizeText (stringOf (req_text b)))
           (GOOGLE_API_KEY e) (MODEL_NAME e) = Inl m"
  shows "worker_fetch sha e w kv req =
     (\<lparr>status = 502, body = ServiceError m\<rparr>,
      snd (checkRateLimit kv (clientIP_of req) (w_now_rate w)),
      [DetectCall (substring500 (worker_normalizeText (stringOf (req_text b))))])"
  using assms
  by (cases "checkRateLimit kv (clientIP_of req) (w_now_rate w)")
     (simp add: worker_fetch_def worker_try_def worker_detectedSourceLang_def detectionCalls_def
        Let_def)

lemma worker_detectLanguage_NotOk:
  "w_detect w apiKey model (substring500 t) = NotOk statusText errorText \<Longrightarrow>
     worker_detectLanguage w t apiKey model = Inl (js ''Language detection failed: '' @ statusText)"
  by (simp add: worker_detectLanguage_def)

lemma worker_detectLanguage_Throws:
  "w_detect w apiKey model (substring500 t) = FetchThrows m \<Longrightarrow>
     worker_detectLanguage w t apiKey model = Inl m"
  by (simp add: worker_detectLanguage_def)

text \<open>
  C2 (as stated, refuted): on the worker a request with \<^verbatim>\<open>sourceLang\<close> \<^verbatim>\<open>"auto"\<close> whose
  detection call gets a non-success response is answered with status 502 and the message
  of the detection error; the pipeline does not continue with \<^verbatim>\<open>"en"\<close>.
\<close>

theorem detection_failure_counterexample:
  "fst (worker_fetch test_digest test_env
          (test_worker_world\<lparr>w_detect := \<lambda>k m t. NotOk (js ''Service Unavailable'') []\<rparr>)
          empty_kv \<lparr>cf_connecting_ip = None, w_body = Body bonjour_auto\<rparr>)
     = \<lparr>status = 502,
        body = ServiceError (js ''Language detection failed: Service Unavailable'')\<rparr>"
  by (simp add: test_defs bonjour_auto_def eval_defs)

text \<open>
  C2 (amended): on the server, when detection throws or its answer, trimmed and
  lower-cased, is not exactly two letters a to z, \<^verbatim>\<open>detectLanguage\<close> returns \<^verbatim>\<open>"en"\<close> and
  the request is answered exactly as if detection had answered \<^verbatim>\<open>"en"\<close>.  On the worker
  only a successful response with such an answer falls back to \<^verbatim>\<open>"en"\<close>; a non-success
  response, or an error thrown by the detection call, is answered with status 502 and the
  message of the error.
\<close>

theorem detection_fallback:
  "(s_body sreq = Body b \<and>
    sdk_detection_fails (s_detect sw (GOOGLE_API_KEY e) (MODEL_NAME e)
       (substring500 (normalizeText (stringOf (req_text b))))) \<longrightarrow>
      detectLanguage e sw (normalizeText (stringOf (req_text b))) = js ''en'' \<and>
      server_translate sha e sw cache sreq =
        server_translate sha e (sw\<lparr>s_detect := \<lambda>k m t. SdkText (js ''en'')\<rparr>) cache sreq) \<and>
   (w_detect ww (GOOGLE_API_KEY e) (MODEL_NAME e) (substring500 t) = OkText r \<and>
    \<not> isTwoLetterCode (toLowerCase (trim r)) \<longrightarrow>
      worker_detectLanguage ww t (GOOGLE_API_KEY e) (MODEL_NAME e) = Inr (js ''en'')) \<and>
   (fst (checkRateLimit kv (clientIP_of wreq) (w_now_rate ww)) = Allowed ra \<and>
    w_body wreq = Body b' \<and> worker_validateRequest b' = None \<and>
    sourceLangOrDefault b' = JStr (js ''auto'') \<and>
    w_detect ww (GOOGLE_API_KEY e) (MODEL_NAME e)
      (substring500 (worker_normalizeText (stringOf (req_text b')))) = NotOk statusText errorText \<longrightarrow>
      fst (worker_fetch sha e ww kv wreq) =
        \<lparr>status = 502, body = ServiceError (js ''Language detection failed: '' @ statusText)\<rparr>) \<and>
   (fst (checkRateLimit kv (clientIP_of wreq) (w_now_rate ww)) = Allowed ra \<and>
    w_body wreq = Body b' \<and> worker_validateRequest b' = None \<and>
    sourceLangOrDefault b' = JStr (js ''auto'') \<and>
    w_detect ww (GOOGLE_API_KEY e) (MODEL_NAME e)
      (substring500 (worker_normalizeText (stringOf (req_text b')))) = FetchThrows message \<longrightarrow>
      fst (worker_fetch sha e ww kv wreq) = \<lparr>status = 502, body = ServiceError message\<rparr>)"
proof (intro conjI impI)
  assume a: "s_body sreq = Body b \<and>
    sdk_detection_fails (s_detect sw (GOOGLE_API_KEY e) (MODEL_NAME e)
       (substring500 (normalizeText (stringOf (req_text b)))))"
  from a show "detectLanguage e sw (normalizeText (stringOf (req_text b))) = js ''en''"
    by (simp add: detectLanguage_fallback)
  from a show "server_translate sha e sw cache sreq =
        server_translate sha e (sw\<lparr>s_detect := \<lambda>k m t. SdkText (js ''en'')\<rparr>) cache sreq"
    by (blast intro: server_translate_detect_fallback)
next
  assume "w_detect ww (GOOGLE_API_KEY e) (MODEL_NAME e) (substring500 t) = OkText r \<and>
    \<not> isTwoLetterCode (toLowerCase (trim r))"
  then show "worker_detectLanguage ww t (GOOGLE_API_KEY e) (MODEL_NAME e) = Inr (js ''en'')"
    by (simp add: worker_detect_fallback)
next
  assume a: "fst (checkRateLimit kv (clientIP_of wreq) (w_now_rate ww)) = Allowed ra \<and>
    w_body wreq = Body b' \<and> worker_validateRequest b' = None \<and>
    sourceLangOrDefault b' = JStr (js ''auto'') \<and>
    w_detect ww (GOOGLE_API_KEY e) (MODEL_NAME e)
      (substring500 (worker_normalizeText (stringOf (req_text b')))) = NotOk statusText errorText"
  then have "worker_detectLanguage ww (worker_normalizeText (stringOf (req_text b')))
      (GOOGLE_API_KEY e) (MODEL_NAME e) = Inl (js ''Language detection failed: '' @ statusText)"
    by (simp add: worker_detectLanguage_NotOk)
  with a show "fst (worker_fetch sha e ww kv wreq) =
        \<lparr>status = 502, body = ServiceError (js ''Language detection failed: '' @ statusText)\<rparr>"
    by (simp add: worker_detect_failure)
next
  assume a: "fst (checkRateLimit kv (clientIP_of wreq) (w_now_rate ww)) = Allowed ra \<and>
    w_body wreq = Body b' \<and> worker_validateRequest b' = None \<and>
    sourceLangOrDefault b' = JStr (js ''auto'') \<and>
    w_detect ww (GOOGLE_API_KEY e) (MODEL_NAME e)
      (substring500 (worker_normalizeText (stringOf (req_text b')))) = FetchThrows message"
  then have "worker_detectLanguage ww (worker_normalizeText (stringOf (req_text b')))
      (GOOGLE_API_KEY e) (MODEL_NAME e) = Inl message"
    by (simp add: worker_detectLanguage_Throws)
  with a show "fst (worker_fetch sha e ww kv wreq) = \<lparr>status = 502, body = ServiceError message\<rparr>"
    by (simp add: worker_detect_failure)
qed

text \<open>Witness of C2: a detection that throws, one that answers a word, one that fails.\<close>

theorem detection_fallback_witness:
  "sdk_detection_fails (SdkThrows (js ''deadline exceeded'')) \<and>
   fst (server_translate test_digest test_env
          (test_server_world\<lparr>s_detect := \<lambda>k m t. SdkThrows (js ''deadline exceeded'')\<rparr>)
          Map.empty \<lparr>ip = js ''203.0.113.7'', s_body = Body bonjour_auto\<rparr>)
     = \<lparr>status = 200, body = TranslationResult (js ''Bonjour'') False (JStr (js ''en''))\<rparr> \<and>
   \<not> isTwoLetterCode (toLowerCase (trim (js ''French''))) \<and>
   worker_detectLanguage (test_worker_world\<lparr>w_detect := \<lambda>k m t. OkText (js ''French'')\<rparr>)
     (js ''Bonjour'') (GOOGLE_API_KEY test_env) (MODEL_NAME test_env) = Inr (js ''en'') \<and>
   fst (worker_fetch test_digest test_env
          (test_worker_world\<lparr>w_detect := \<lambda>k m t. FetchThrows (js ''network error'')\<rparr>)
          empty_kv \<lparr>cf_connecting_ip = None, w_body = Body bonjour_auto\<rparr>)
     = \<lparr>status = 502, body = ServiceError (js ''network error'')\<rparr>"
  using detection_fallback [where e = test_env and sha = test_digest and cache = Map.empty
      and sw = "test_server_world\<lparr>s_detect := \<lambda>k m t. SdkThrows (js ''deadline exceeded'')\<rparr>"
      and sreq = "\<lparr>ip = js ''203.0.113.7'', s_body = Body bonjour_auto\<rparr>" and b = bonjour_auto
      and ww = "test_worker_world\<lparr>w_detect := \<lambda>k m t. FetchThrows (js ''network error'')\<rparr>"
      and kv = empty_kv and wreq = "\<lparr>cf_connecting_ip = None, w_body = Body bonjour_auto\<rparr>"
      and b' = bonjour_auto and ra = 59 and message = "js ''network error''"
      and t = "js ''Bonjour''" and r = "js ''French''"
      and statusText = "[]" and errorText = "[]"]
    detection_fallback [where e = test_env and sha = test_digest and cache = Map.empty
      and sw = "test_server_world\<lparr>s_detect := \<lambda>k m t. SdkThrows (js ''deadline exceeded'')\<rparr>"
      and sreq = "\<lparr>ip = js ''203.0.113.7'', s_body = Body bonjour_auto\<rparr>" and b = bonjour_auto
      and ww = "test_worker_world\<lparr>w_detect := \<lambda>k m t. OkText (js ''French'')\<rparr>"
      and kv = empty_kv and wreq = "\<lparr>cf_connecting_ip = None, w_body = Body bonjour_auto\<rparr>"
      and b' = bonjour_auto and ra = 59 and message = "js ''network error''"
      and t = "js ''Bonjour''" and r = "js ''French''"
      and statusText = "[]" and errorText = "[]"]
  by (simp add: test_defs bonjour_auto_def eval_defs)

section \<open>C3: a missing upstream credential\<close>

lemma includes_str_Nil [simp]: "includes_str s []"
  by (cases s) auto


lemma includes_str_append: "includes_str s sub \<Longrightarrow> includes_str (s @ r) sub"
proof (induction s)
  case Nil
  then show ?case by simp
next
  case (Cons c cs)
  from Cons.prems have "take (length sub) (c # cs) = sub \<or> includes_str cs sub" by simp
  then show ?case
  proof
    assume t: "take (length sub) (c # cs) = sub"
    have "length (take (length sub) (c # cs)) \<le> length (c # cs)"
      by (simp del: take_Suc_Cons)
    then have "length sub \<le> length (c # cs)" unfolding t .
    then have "take (length sub) ((c # cs) @ r) = take (length sub) (c # cs)"
      by (simp only: take_append) simp
    then have "take (length sub) (c # (cs @ r)) = sub" using t by simp
    then show ?thesis by simp
  next
    assume "includes_str cs sub"
    then show ?thesis using Cons.IH by simp
  qed
qed










text \<open>
  The server can answer a parsed request with status 500, but only for an error thrown
  outside \<^verbatim>\<open>translateText\<close>: here the source language is an object with a property
  \<^verbatim>\<open>toString\<close>, the template literal logged after the cache miss throws, and no
  translation call is made.  The worker answers the same body with status 502.
\<close>

lemma server_template_literal_throws:
  "server_translate test_digest test_env test_server_world Map.empty
     \<lparr>ip = js ''203.0.113.7'',
      s_body = Body (hello_world\<lparr>req_sourceLang := JObj [(js ''toString'', JNum 1)]\<rparr>)\<rparr>
   = (\<lparr>status = 500, body = ServiceError (js ''An error occurred during translation'')\<rparr>,
      Map.empty, [CacheGet (js ''Hello worldvigemini'')])"
  by (simp add: test_defs eval_defs)

lemma worker_property_key_throws:
  "fst (worker_fetch test_digest test_env test_worker_world empty_kv
     \<lparr>cf_connecting_ip = None,
      w_body = Body (hello_world\<lparr>req_sourceLang := JObj [(js ''toString'', JNum 1)]\<rparr>)\<rparr>)
   = \<lparr>status = 502, body = ServiceError (js ''Cannot convert object to primitive value'')\<rparr>"
  by (simp add: test_defs eval_defs)




section \<open>C4: the fixed window of the worker's rate limiter\<close>

lemma checkRateLimit_first:
  "kv_get (ratelimit_keys kv) clientIP now = None \<Longrightarrow>
     checkRateLimit kv clientIP now =
       (Allowed (RATE_LIMIT_MAX - 1),
        kv\<lparr>ratelimit_keys :=
             kv_put (ratelimit_keys kv) clientIP \<lparr>count = 1, windowStart = now\<rparr>
               RATE_LIMIT_WINDOW now\<rparr>)"
  by (simp add: checkRateLimit_def Let_def)

lemma checkRateLimit_expired:
  "kv_get (ratelimit_keys kv) clientIP now = Some d \<Longrightarrow>
   now - windowStart d > RATE_LIMIT_WINDOW * 1000 \<Longrightarrow>
     checkRateLimit kv clientIP now =
       (Allowed (RATE_LIMIT_MAX - 1),
        kv\<lparr>ratelimit_keys :=
             kv_put (ratelimit_keys kv) clientIP \<lparr>count = 1, windowStart = now\<rparr>
               RATE_LIMIT_WINDOW now\<rparr>)"
  by (simp add: checkRateLimit_def Let_def)

lemma checkRateLimit_denied:
  "kv_get (ratelimit_keys kv) clientIP now = Some d \<Longrightarrow>
   now - windowStart d \<le> RATE_LIMIT_WINDOW * 1000 \<Longrightarrow> count d \<ge> RATE_LIMIT_MAX \<Longrightarrow>
     checkRateLimit kv clientIP now = (Denied 0 RATE_LIMIT_WINDOW, kv)"
  by (simp add: checkRateLimit_def Let_def)

lemma checkRateLimit_increment:
  "kv_get (ratelimit_keys kv) clientIP now = Some d \<Longrightarrow>
   now - windowStart d \<le> RATE_LIMIT_WINDOW * 1000 \<Longrightarrow> count d < RATE_LIMIT_MAX \<Longrightarrow>
     checkRateLimit kv clientIP now =
       (Allowed (RATE_LIMIT_MAX - count d - 1),
        kv\<lparr>ratelimit_keys :=
             kv_put (ratelimit_keys kv) clientIP
               \<lparr>count = count d + 1, windowStart = windowStart d\<rparr> RATE_LIMIT_WINDOW now\<rparr>)"
  by (simp add: checkRateLimit_def Let_def)

lemma run_in_window:
  assumes "ratelimit_keys kv clientIP =
             Some \<lparr>kv_value = \<lparr>count = c, windowStart = ws\<rparr>, kv_expires = x\<rparr>"
    and "ws + RATE_LIMIT_WINDOW * 1000 \<le> x"
    and "\<forall>t\<in>set ts. ws \<le> t \<and> t < ws + RATE_LIMIT_WINDOW * 1000"
  shows "fst (checkRateLimit_run kv clientIP ts) =
           map (\<lambda>i. if c + int i < RATE_LIMIT_MAX then Allowed (RATE_LIMIT_MAX - 1 - c - int i)
                     else Denied 0 RATE_LIMIT_WINDOW) [0..<length ts]"
  using assms
proof (induction ts arbitrary: kv c x)
  case Nil
  show ?case by simp
next
  case (Cons t ts)
  from Cons.prems have t: "ws \<le> t" "t < ws + RATE_LIMIT_WINDOW * 1000" "t < x" by auto
  have g: "kv_get (ratelimit_keys kv) clientIP t = Some \<lparr>count = c, windowStart = ws\<rparr>"
    using Cons.prems(1) t by (simp add: kv_get_def)
  have w: "t - windowStart \<lparr>count = c, windowStart = ws\<rparr> \<le> RATE_LIMIT_WINDOW * 1000"
    using t by simp
  let ?f = "\<lambda>c i. if c + int i < RATE_LIMIT_MAX then Allowed (RATE_LIMIT_MAX - 1 - c - int i)
                     else Denied 0 RATE_LIMIT_WINDOW"
  have up: "map (?f c) [0..<length (t # ts)] = ?f c 0 # map (\<lambda>i. ?f c (Suc i)) [0..<length ts]"
    by (simp add: map_upt_Suc del: upt_Suc)
  show ?case
  proof (cases "c \<ge> RATE_LIMIT_MAX")
    case True
    have step: "checkRateLimit kv clientIP t = (Denied 0 RATE_LIMIT_WINDOW, kv)"
      using checkRateLimit_denied [OF g w] True by simp
    have ih: "fst (checkRateLimit_run kv clientIP ts) = map (?f c) [0..<length ts]"
      using Cons.IH [OF Cons.prems(1) Cons.prems(2)] Cons.prems(3) by simp
    have "map (\<lambda>i. ?f c (Suc i)) [0..<length ts] = map (?f c) [0..<length ts]"
      using True by simp
    with step ih up True show ?thesis by (simp add: split_beta del: upt_Suc)
  next
    case False
    let ?kv = "kv\<lparr>ratelimit_keys :=
             kv_put (ratelimit_keys kv) clientIP
               \<lparr>count = c + 1, windowStart = ws\<rparr> RATE_LIMIT_WINDOW t\<rparr>"
    have step: "checkRateLimit kv clientIP t = (Allowed (RATE_LIMIT_MAX - c - 1), ?kv)"
      using checkRateLimit_increment [OF g w] False by simp
    have r: "ratelimit_keys ?kv clientIP =
        Some \<lparr>kv_value = \<lparr>count = c + 1, windowStart = ws\<rparr>,
              kv_expires = t + RATE_LIMIT_WINDOW * 1000\<rparr>"
      by (simp add: kv_put_def)
    have x': "ws + RATE_LIMIT_WINDOW * 1000 \<le> t + RATE_LIMIT_WINDOW * 1000" using t by simp
    have ih: "fst (checkRateLimit_run ?kv clientIP ts) = map (?f (c + 1)) [0..<length ts]"
      using Cons.IH [OF r x'] Cons.prems(3) by simp
    have "map (\<lambda>i. ?f c (Suc i)) [0..<length ts] = map (?f (c + 1)) [0..<length ts]"
      by (simp add: algebra_simps)
    with step ih up False show ?thesis by (simp add: split_beta algebra_simps del: upt_Suc)
  qed
qed

lemma run_from_first:
  assumes "kv_get (ratelimit_keys kv) clientIP start = None"
    and "\<forall>t\<in>set ts. start \<le> t \<and> t < start + RATE_LIMIT_WINDOW * 1000"
  shows "fst (checkRateLimit_run kv clientIP (start # ts)) =
           map (\<lambda>i. if int i < RATE_LIMIT_MAX then Allowed (RATE_LIMIT_MAX - 1 - int i)
                     else Denied 0 RATE_LIMIT_WINDOW) [0..<Suc (length ts)]"
proof -
  let ?kv = "kv\<lparr>ratelimit_keys :=
             kv_put (ratelimit_keys kv) clientIP \<lparr>count = 1, windowStart = start\<rparr>
               RATE_LIMIT_WINDOW start\<rparr>"
  let ?g = "\<lambda>i. if int i < RATE_LIMIT_MAX then Allowed (RATE_LIMIT_MAX - 1 - int i)
                     else Denied 0 RATE_LIMIT_WINDOW"
  have step: "checkRateLimit kv clientIP start = (Allowed (RATE_LIMIT_MAX - 1), ?kv)"
    by (rule checkRateLimit_first [OF assms(1)])
  have r: "ratelimit_keys ?kv clientIP =
        Some \<lparr>kv_value = \<lparr>count = 1, windowStart = start\<rparr>,
              kv_expires = start + RATE_LIMIT_WINDOW * 1000\<rparr>"
    by (simp add: kv_put_def)
  have "fst (checkRateLimit_run ?kv clientIP ts) =
          map (\<lambda>i. if 1 + int i < RATE_LIMIT_MAX then Allowed (RATE_LIMIT_MAX - 1 - 1 - int i)
                     else Denied 0 RATE_LIMIT_WINDOW) [0..<length ts]"
    by (rule run_in_window [OF r _ assms(2)]) simp
  also have "\<dots> = map (\<lambda>i. ?g (Suc i)) [0..<length ts]"
    by (simp add: algebra_simps)
  finally have ih: "fst (checkRateLimit_run ?kv clientIP ts) = map (\<lambda>i. ?g (Suc i)) [0..<length ts]" .
  have up: "map ?g [0..<Suc (length ts)] = ?g 0 # map (\<lambda>i. ?g (Suc i)) [0..<length ts]"
    by (simp add: map_upt_Suc del: upt_Suc)
  have "0 < RATE_LIMIT_MAX" by (simp add: RATE_LIMIT_MAX_def)
  with step ih up show ?thesis by (simp add: split_beta del: upt_Suc)
qed

text \<open>
  C4 (as stated, refuted): a third call exactly one window duration after the first, the
  counter having been renewed in between, continues the window (the stored count becomes
  3, not 1); and with the counter at the maximum such a call is denied, not allowed.
\<close>

theorem rate_limit_window_boundary_counterexample:
  "fst (checkRateLimit_run empty_kv (js ''unknown'') [0, 30000, 60000])
     = [Allowed 59, Allowed 58, Allowed 57] \<and>
   kv_get (ratelimit_keys (snd (checkRateLimit_run empty_kv (js ''unknown'') [0, 30000, 60000])))
     (js ''unknown'') 60000 = Some \<lparr>count = 3, windowStart = 0\<rparr> \<and>
   checkRateLimit full_window_kv (js ''unknown'') 60000 = (Denied 0 60, full_window_kv)"
  by (simp add: test_defs checkRateLimit_def kv_get_def kv_put_def RATE_LIMIT_MAX_def
      RATE_LIMIT_WINDOW_def Let_def)

text \<open>
  C4 (amended): \<^verbatim>\<open>checkRateLimit\<close> starts a new window with count 1 and allows the call when
  the namespace returns no counter for the client, or when \<^verbatim>\<open>now - windowStart\<close> is strictly
  greater than the window duration; otherwise it denies with \<^verbatim>\<open>retryAfter\<close> the window
  duration and \<^verbatim>\<open>remaining\<close> 0 when the count has reached the maximum, and else increments
  the count and allows.  A denied call is answered with status 429.  Consequently, of the
  calls of one client that all fall less than a window duration after a first call which
  found no counter, the first \<^verbatim>\<open>RATE_LIMIT_MAX\<close> are allowed and every later one is denied.
\<close>

theorem checkRateLimit_fixed_window:
  "(kv_get (ratelimit_keys kv) clientIP now = None \<or>
    (\<exists>d. kv_get (ratelimit_keys kv) clientIP now = Some d \<and>
         now - windowStart d > RATE_LIMIT_WINDOW * 1000) \<longrightarrow>
      checkRateLimit kv clientIP now =
        (Allowed (RATE_LIMIT_MAX - 1),
         kv\<lparr>ratelimit_keys :=
              kv_put (ratelimit_keys kv) clientIP \<lparr>count = 1, windowStart = now\<rparr>
                RATE_LIMIT_WINDOW now\<rparr>)) \<and>
   (kv_get (ratelimit_keys kv) clientIP now = Some d \<and>
    now - windowStart d \<le> RATE_LIMIT_WINDOW * 1000 \<and> count d \<ge> RATE_LIMIT_MAX \<longrightarrow>
      checkRateLimit kv clientIP now = (Denied 0 RATE_LIMIT_WINDOW, kv)) \<and>
   (kv_get (ratelimit_keys kv) clientIP now = Some d \<and>
    now - windowStart d \<le> RATE_LIMIT_WINDOW * 1000 \<and> count d < RATE_LIMIT_MAX \<longrightarrow>
      checkRateLimit kv clientIP now =
        (Allowed (RATE_LIMIT_MAX - count d - 1),
         kv\<lparr>ratelimit_keys :=
              kv_put (ratelimit_keys kv) clientIP
                \<lparr>count = count d + 1, windowStart = windowStart d\<rparr> RATE_LIMIT_WINDOW now\<rparr>)) \<and>
   (fst (checkRateLimit kv (clientIP_of req) (w_now_rate w)) = Denied remaining retryAfter \<longrightarrow>
      fst (worker_fetch sha e w kv req) = \<lparr>status = 429, body = TooManyRequests retryAfter\<rparr>) \<and>
   (kv_get (ratelimit_keys kv) clientIP start = None \<and>
    (\<forall>t\<in>set ts. start \<le> t \<and> t < start + RATE_LIMIT_WINDOW * 1000) \<longrightarrow>
      fst (checkRateLimit_run kv clientIP (start # ts)) =
        map (\<lambda>i. if int i < RATE_LIMIT_MAX then Allowed (RATE_LIMIT_MAX - 1 - int i)
                  else Denied 0 RATE_LIMIT_WINDOW) [0..<Suc (length ts)])"
proof (intro conjI impI)
  assume "kv_get (ratelimit_keys kv) clientIP now = None \<or>
    (\<exists>d. kv_get (ratelimit_keys kv) clientIP now = Some d \<and>
         now - windowStart d > RATE_LIMIT_WINDOW * 1000)"
  then show "checkRateLimit kv clientIP now =
        (Allowed (RATE_LIMIT_MAX - 1),
         kv\<lparr>ratelimit_keys :=
              kv_put (ratelimit_keys kv) clientIP \<lparr>count = 1, windowStart = now\<rparr>
                RATE_LIMIT_WINDOW now\<rparr>)"
    using checkRateLimit_first checkRateLimit_expired by blast
next
  assume "kv_get (ratelimit_keys kv) clientIP now = Some d \<and>
    now - windowStart d \<le> RATE_LIMIT_WINDOW * 1000 \<and> count d \<ge> RATE_LIMIT_MAX"
  then show "checkRateLimit kv clientIP now = (Denied 0 RATE_LIMIT_WINDOW, kv)"
    using checkRateLimit_denied by blast
next
  assume "kv_get (ratelimit_keys kv) clientIP now = Some d \<and>
    now - windowStart d \<le> RATE_LIMIT_WINDOW * 1000 \<and> count d < RATE_LIMIT_MAX"
  then show "checkRateLimit kv clientIP now =
        (Allowed (RATE_LIMIT_MAX - count d - 1),
         kv\<lparr>ratelimit_keys :=
              kv_put (ratelimit_keys kv) clientIP
                \<lparr>count = count d + 1, windowStart = windowStart d\<rparr> RATE_LIMIT_WINDOW now\<rparr>)"
    using checkRateLimit_increment by blast
next
  assume "fst (checkRateLimit kv (clientIP_of req) (w_now_rate w)) = Denied remaining retryAfter"
  then show "fst (worker_fetch sha e w kv req) = \<lparr>status = 429, body = TooManyRequests retryAfter\<rparr>"
    by (simp add: worker_fetch_denied)
next
  assume "kv_get (ratelimit_keys kv) clientIP start = None \<and>
    (\<forall>t\<in>set ts. start \<le> t \<and> t < start + RATE_LIMIT_WINDOW * 1000)"
  then show "fst (checkRateLimit_run kv clientIP (start # ts)) =
        map (\<lambda>i. if int i < RATE_LIMIT_MAX then Allowed (RATE_LIMIT_MAX - 1 - int i)
                  else Denied 0 RATE_LIMIT_WINDOW) [0..<Suc (length ts)]"
    using run_from_first by blast
qed

text \<open>Witness of C4: a first call, a call on a full window, and 61 calls in one window.\<close>

theorem checkRateLimit_fixed_window_witness:
  "kv_get (ratelimit_keys empty_kv) (js ''unknown'') 0 = None \<and>
   fst (checkRateLimit empty_kv (js ''unknown'') 0) = Allowed 59 \<and>
   kv_get (ratelimit_keys full_window_kv) (js ''unknown'') 1000 = Some \<lparr>count = 60, windowStart = 0\<rparr> \<and>
   checkRateLimit full_window_kv (js ''unknown'') 1000 = (Denied 0 60, full_window_kv) \<and>
   fst (worker_fetch test_digest test_env test_worker_world full_window_kv
          \<lparr>cf_connecting_ip = None, w_body = Body hello_world\<rparr>)
     = \<lparr>status = 429, body = TooManyRequests 60\<rparr> \<and>
   fst (checkRateLimit_run empty_kv (js ''unknown'') (0 # replicate 60 1000)) ! 59 = Allowed 0 \<and>
   fst (checkRateLimit_run empty_kv (js ''unknown'') (0 # replicate 60 1000)) ! 60 = Denied 0 60"
proof -
  note w1 = checkRateLimit_fixed_window [where kv = empty_kv and clientIP = "js ''unknown''"
      and now = 0 and start = 0 and ts = "replicate 60 1000" and d = "\<lparr>count = 60, windowStart = 0\<rparr>"
      and req = "\<lparr>cf_connecting_ip = None, w_body = Body hello_world\<rparr>"
      and w = test_worker_world and sha = test_digest and e = test_env
      and remaining = 0 and retryAfter = 60]
  note w2 = checkRateLimit_fixed_window [where kv = full_window_kv and clientIP = "js ''unknown''"
      and now = 1000 and start = 0 and ts = "[]" and d = "\<lparr>count = 60, windowStart = 0\<rparr>"
      and req = "\<lparr>cf_connecting_ip = None, w_body = Body hello_world\<rparr>"
      and w = test_worker_world and sha = test_digest and e = test_env
      and remaining = 0 and retryAfter = 60]
  have n: "kv_get (ratelimit_keys empty_kv) (js ''unknown'') 0 = None"
    by (simp add: empty_kv_def kv_get_def)
  have s: "kv_get (ratelimit_keys full_window_kv) (js ''unknown'') 1000
             = Some \<lparr>count = 60, windowStart = 0\<rparr>"
    by (simp add: full_window_kv_def kv_get_def)
  have c: "clientIP_of \<lparr>cf_connecting_ip = None, w_body = Body hello_world\<rparr> = js ''unknown''"
    "w_now_rate test_worker_world = 1000"
    by (simp_all add: clientIP_of_def test_worker_world_def)
  from w1 n have a: "fst (checkRateLimit empty_kv (js ''unknown'') 0) = Allowed 59"
    by (simp add: RATE_LIMIT_MAX_def)
  from w2 s have d: "checkRateLimit full_window_kv (js ''unknown'') 1000 = (Denied 0 60, full_window_kv)"
    by (simp add: RATE_LIMIT_MAX_def RATE_LIMIT_WINDOW_def)
  from w2 d c have f: "fst (worker_fetch test_digest test_env test_worker_world full_window_kv
          \<lparr>cf_connecting_ip = None, w_body = Body hello_world\<rparr>)
     = \<lparr>status = 429, body = TooManyRequests 60\<rparr>"
    by simp
  have "\<forall>t\<in>set (replicate 60 (1000::int)). 0 \<le> t \<and> t < 0 + RATE_LIMIT_WINDOW * 1000"
    by (simp add: RATE_LIMIT_WINDOW_def)
  with w1 n have r: "fst (checkRateLimit_run empty_kv (js ''unknown'') (0 # replicate 60 1000)) =
        map (\<lambda>i. if int i < RATE_LIMIT_MAX then Allowed (RATE_LIMIT_MAX - 1 - int i)
                  else Denied 0 RATE_LIMIT_WINDOW) [0..<Suc (length (replicate 60 (1000::int)))]"
    by blast
  have "fst (checkRateLimit_run empty_kv (js ''unknown'') (0 # replicate 60 1000)) ! 59 = Allowed 0"
    "fst (checkRateLimit_run empty_kv (js ''unknown'') (0 # replicate 60 1000)) ! 60 = Denied 0 60"
    unfolding r by (simp_all add: RATE_LIMIT_MAX_def RATE_LIMIT_WINDOW_def nth_append del: upt_Suc)
  with n a s d f show ?thesis by blast
qed

section \<open>C5: the short-circuit\<close>

lemma server_short_circuit:
  assumes "limiter e w req = None" and "s_body req = Body b" and "validateRequest b = None"
    and "strict_eq (detectedSourceLang e w (sourceLangOrDefault b)
            (normalizeText (stringOf (req_text b)))) (req_targetLang b)"
  shows "server_translate sha e w cache req =
     (\<lparr>status = 200,
       body = TranslationResult (normalizeText (stringOf (req_text b))) False
         (detectedSourceLang e w (sourceLangOrDefault b) (normalizeText (stringOf (req_text b))))\<rparr>,
      cache,
      detectionCalls (sourceLangOrDefault b) (normalizeText (stringOf (req_text b))))"
  using assms by (simp add: server_translate_def post_translate_def post_translate_try_def Let_def)

lemma worker_short_circuit:
  assumes "fst (checkRateLimit kv (clientIP_of req) (w_now_rate w)) = Allowed r"
    and "w_body req = Body b" and "worker_validateRequest b = None"
    and "worker_detectedSourceLang e w (sourceLangOrDefault b)
           (worker_normalizeText (stringOf (req_text b))) = Inr lang"
    and "strict_eq lang (req_targetLang b)"
  shows "worker_fetch sha e w kv req =
     (\<lparr>status = 200,
       body = TranslationResult (worker_normalizeText (stringOf (req_text b))) False lang\<rparr>,
      snd (checkRateLimit kv (clientIP_of req) (w_now_rate w)),
      detectionCalls (sourceLangOrDefault b) (worker_normalizeText (stringOf (req_text b))))"
  using assms
  by (cases "checkRateLimit kv (clientIP_of req) (w_now_rate w)")
     (simp add: worker_fetch_def worker_try_def worker_translate_stage_def Let_def)

text \<open>
  C5: a request that passes the rate limit and validation and whose source language, given
  or detected, is strictly equal to the target language is answered with status 200, the
  normalised text as translation and \<^verbatim>\<open>cached\<close> false; the handler makes no cache lookup, no
  translation call and no cache store, and leaves the cache unchanged.  This holds for the
  server and for the worker.
\<close>

theorem short_circuit:
  "(limiter e sw sreq = None \<and> s_body sreq = Body b \<and> validateRequest b = None \<and>
    strict_eq (detectedSourceLang e sw (sourceLangOrDefault b)
       (normalizeText (stringOf (req_text b)))) (req_targetLang b) \<longrightarrow>
      (\<exists>calls.
         server_translate sha e sw cache sreq =
           (\<lparr>status = 200,
             body = TranslationResult (normalizeText (stringOf (req_text b))) False
               (detectedSourceLang e sw (sourceLangOrDefault b)
                  (normalizeText (stringOf (req_text b))))\<rparr>,
            cache, calls) \<and>
         (\<forall>k t s l. CacheGet k \<notin> set calls \<and> CachePut k \<notin> set calls \<and>
            TranslateCall t s l \<notin> set calls))) \<and>
   (fst (checkRateLimit kv (clientIP_of wreq) (w_now_rate ww)) = Allowed r \<and>
    w_body wreq = Body b' \<and> worker_validateRequest b' = None \<and>
    worker_detectedSourceLang e ww (sourceLangOrDefault b')
       (worker_normalizeText (stringOf (req_text b'))) = Inr lang \<and>
    strict_eq lang (req_targetLang b') \<longrightarrow>
      (\<exists>kv' calls.
         worker_fetch sha e ww kv wreq =
           (\<lparr>status = 200,
             body = TranslationResult (worker_normalizeText (stringOf (req_text b'))) False lang\<rparr>,
            kv', calls) \<and>
         cache_keys kv' = cache_keys kv \<and>
         (\<forall>k t s l. CacheGet k \<notin> set calls \<and> CachePut k \<notin> set calls \<and>
            TranslateCall t s l \<notin> set calls)))"
  by (auto simp: server_short_circuit worker_short_circuit checkRateLimit_cache_keys
      detectionCalls_only_detect)

text \<open>Witness of C5: the same-language request of the test script, and a detected English.\<close>

theorem short_circuit_witness:
  "validateRequest
     \<lparr>req_text = JStr (js ''This text should be returned as-is''), req_sourceLang = JStr (js ''en''),
      req_targetLang = JStr (js ''en''), req_provider = JStr (js ''gemini'')\<rparr> = None \<and>
   server_translate test_digest test_env test_server_world Map.empty
     \<lparr>ip = js ''203.0.113.7'', s_body = Body
       \<lparr>req_text = JStr (js ''This text should be returned as-is''), req_sourceLang = JStr (js ''en''),
        req_targetLang = JStr (js ''en''), req_provider = JStr (js ''gemini'')\<rparr>\<rparr>
     = (\<lparr>status = 200,
         body = TranslationResult (js ''This text should be returned as-is'') False (JStr (js ''en''))\<rparr>,
        Map.empty, []) \<and>
   fst (worker_fetch test_digest test_env test_worker_world empty_kv
     \<lparr>cf_connecting_ip = None, w_body = Body
       \<lparr>req_text = JStr (js ''Hello''), req_sourceLang = JUndefined,
        req_targetLang = JStr (js ''en''), req_provider = JStr (js ''gemini'')\<rparr>\<rparr>)
     = \<lparr>status = 200, body = TranslationResult (js ''Hello'') False (JStr (js ''en''))\<rparr>"
  using short_circuit [where e = test_env and sha = test_digest and sw = test_server_world
      and cache = Map.empty
      and sreq = "\<lparr>ip = js ''203.0.113.7'', s_body = Body
       \<lparr>req_text = JStr (js ''This text should be returned as-is''), req_sourceLang = JStr (js ''en''),
        req_targetLang = JStr (js ''en''), req_provider = JStr (js ''gemini'')\<rparr>\<rparr>"
      and b = "\<lparr>req_text = JStr (js ''This text should be returned as-is''),
        req_sourceLang = JStr (js ''en''),
        req_targetLang = JStr (js ''en''), req_provider = JStr (js ''gemini'')\<rparr>"
      and ww = test_worker_world and kv = empty_kv and r = 59 and lang = "JStr (js ''en'')"
      and wreq = "\<lparr>cf_connecting_ip = None, w_body = Body
       \<lparr>req_text = JStr (js ''Hello''), req_sourceLang = JUndefined,
        req_targetLang = JStr (js ''en''), req_provider = JStr (js ''gemini'')\<rparr>\<rparr>"
      and b' = "\<lparr>req_text = JStr (js ''Hello''), req_sourceLang = JUndefined,
        req_targetLang = JStr (js ''en''), req_provider = JStr (js ''gemini'')\<rparr>"]
  by (simp add: test_defs eval_defs)

section \<open>C6: the order of validation\<close>

text \<open>
  C6 (code defect on the worker): both handlers check \<^verbatim>\<open>text\<close>, then \<^verbatim>\<open>targetLang\<close>, then
  \<^verbatim>\<open>provider\<close> and report the first failure (\<open>validateRequest_first_failure\<close>,
  \<open>worker_validateRequest_first_failure\<close>), but the worker tests \<^verbatim>\<open>targetLang\<close> for
  truthiness only.  A request whose \<^verbatim>\<open>targetLang\<close> is the number 5 is rejected by the server
  for its \<^verbatim>\<open>targetLang\<close>, passes the worker's validation and is translated.
\<close>

theorem worker_validateRequest_accepts_number:
  "worker_validateRequest
     \<lparr>req_text = JStr (js ''Hello''), req_sourceLang = JStr (js ''en''),
      req_targetLang = JNum 5, req_provider = JStr (js ''gemini'')\<rparr> = None \<and>
   validateRequest
     \<lparr>req_text = JStr (js ''Hello''), req_sourceLang = JStr (js ''en''),
      req_targetLang = JNum 5, req_provider = JStr (js ''gemini'')\<rparr> = Some InvalidTargetLang \<and>
   fst (worker_fetch (\<lambda>t s l p. [])
     \<lparr>GOOGLE_API_KEY = Some (js ''key''), GEMINI_MODEL = None, NODE_ENV = None,
      CACHE_TTL_HOURS = None, TRUSTED_IPS = []\<rparr>
     \<lparr>w_now_rate = 0, w_now_lookup = 0, w_now_store = 0,
      w_detect = (\<lambda>k m t. OkText (js ''en'')),
      w_translate = (\<lambda>k m t s l. OkText (js ''Xin chao''))\<rparr>
     \<lparr>ratelimit_keys = Map.empty, cache_keys = Map.empty\<rparr>
     \<lparr>cf_connecting_ip = None,
      w_body = Body \<lparr>req_text = JStr (js ''Hello''), req_sourceLang = JStr (js ''en''),
        req_targetLang = JNum 5, req_provider = JStr (js ''gemini'')\<rparr>\<rparr>)
   = \<lparr>status = 200, body = TranslationResult (js ''Xin chao'') False (JStr (js ''en''))\<rparr>"
  by (simp add: worker_validateRequest_def validateRequest_def worker_fetch_def worker_try_def
      checkRateLimit_def kv_get_def kv_put_def clientIP_of_def worker_detectedSourceLang_def
      detectionCalls_def sourceLangOrDefault_def worker_translate_stage_def generateCacheKey_def
      worker_cacheLookup_def worker_translateText_def MODEL_NAME_def worker_normalizeText_def
      RATE_LIMIT_MAX_def RATE_LIMIT_WINDOW_def CACHE_TTL_def
      js_def trim_def isWhiteSpace_def SP_def LF_def Let_def)

text \<open>
  Witness of C6: for this request the two handlers' validations disagree, and the worker
  answers with status 200.
\<close>

theorem worker_validateRequest_accepts_number_witness:
  "worker_validateRequest
     \<lparr>req_text = JStr (js ''Hello''), req_sourceLang = JStr (js ''en''),
      req_targetLang = JNum 5, req_provider = JStr (js ''gemini'')\<rparr>
   \<noteq> validateRequest
     \<lparr>req_text = JStr (js ''Hello''), req_sourceLang = JStr (js ''en''),
      req_targetLang = JNum 5, req_provider = JStr (js ''gemini'')\<rparr> \<and>
   status (fst (worker_fetch (\<lambda>t s l p. [])
     \<lparr>GOOGLE_API_KEY = Some (js ''key''), GEMINI_MODEL = None, NODE_ENV = None,
      CACHE_TTL_HOURS = None, TRUSTED_IPS = []\<rparr>
     \<lparr>w_now_rate = 0, w_now_lookup = 0, w_now_store = 0,
      w_detect = (\<lambda>k m t. OkText (js ''en'')),
      w_translate = (\<lambda>k m t s l. OkText (js ''Xin chao''))\<rparr>
     \<lparr>ratelimit_keys = Map.empty, cache_keys = Map.empty\<rparr>
     \<lparr>cf_connecting_ip = None,
      w_body = Body \<lparr>req_text = JStr (js ''Hello''), req_sourceLang = JStr (js ''en''),
        req_targetLang = JNum 5, req_provider = JStr (js ''gemini'')\<rparr>\<rparr>)) = 200"
  using worker_validateRequest_accepts_number by simp

section \<open>C7: rate limit and validation\<close>

text \<open>
  C7 (as stated, refuted): on the worker a request with an empty \<^verbatim>\<open>text\<close>, from a client
  whose window is full, is answered with status 429, not with the validation error.
\<close>

theorem validation_after_rate_limit_counterexample:
  "worker_validateRequest empty_text = Some InvalidText \<and>
   fst (worker_fetch test_digest test_env test_worker_world full_window_kv
          \<lparr>cf_connecting_ip = None, w_body = Body empty_text\<rparr>)
     = \<lparr>status = 429, body = TooManyRequests 60\<rparr>"
  by (simp add: test_defs eval_defs)

text \<open>
  C7 (amended): the rate limiter runs before validation, on the worker and on the server.
  On the worker it is the first statement of the endpoint: a request it denies is answered
  with status 429 whatever its body, and a request it lets pass and which fails
  validation is answered with status 400 and the validation error.  On the server the
  rate-limit middleware comes after the JSON middleware and the CORS middleware and before
  the handler: a request that reaches it and that it rejects is answered with status 429
  whatever its body, and a request it lets pass and which fails validation is answered
  with status 400 and the validation error; a request whose body the JSON middleware
  cannot read is answered by the error handler with status 500, and a request from an
  origin that is not allowed with status 403, whatever the state of the rate limit.
\<close>

theorem rate_limit_before_validation:
  "(fst (checkRateLimit kv (clientIP_of wreq) (w_now_rate ww)) = Denied r a \<longrightarrow>
      fst (worker_fetch sha e ww kv wreq) = \<lparr>status = 429, body = TooManyRequests a\<rparr>) \<and>
   (fst (checkRateLimit kv (clientIP_of wreq) (w_now_rate ww)) = Allowed r \<and>
    w_body wreq = Body b \<and> worker_validateRequest b = Some err \<longrightarrow>
      fst (worker_fetch sha e ww kv wreq) = \<lparr>status = 400, body = err\<rparr>) \<and>
   (h_json hreq = JsonNext rawBody \<and> corsAllows allowedOrigins (h_origin hreq) \<and>
    limiter e sw \<lparr>ip = h_ip hreq, s_body = rawBody\<rparr> = Some resp \<longrightarrow>
      app_post_translate sha e sw allowedOrigins cache hreq = (resp, cache, []) \<and>
      resp = \<lparr>status = 429, body = LimiterMessage\<rparr>) \<and>
   (h_json hreq = JsonNext (Body b') \<and> corsAllows allowedOrigins (h_origin hreq) \<and>
    limiter e sw \<lparr>ip = h_ip hreq, s_body = Body b'\<rparr> = None \<and>
    validateRequest b' = Some err' \<longrightarrow>
      app_post_translate sha e sw allowedOrigins cache hreq =
        (\<lparr>status = 400, body = err'\<rparr>, cache, [])) \<and>
   (h_json hreq = JsonError message \<longrightarrow>
      app_post_translate sha e sw allowedOrigins cache hreq = (errorHandler e message, cache, [])) \<and>
   (message \<noteq> js ''Not allowed by CORS'' \<longrightarrow> status (errorHandler e message) = 500) \<and>
   (h_json hreq = JsonNext rawBody \<and> \<not> corsAllows allowedOrigins (h_origin hreq) \<longrightarrow>
      app_post_translate sha e sw allowedOrigins cache hreq =
        (\<lparr>status = 403, body = CorsError\<rparr>, cache, []))"
proof (intro conjI impI)
  assume "fst (checkRateLimit kv (clientIP_of wreq) (w_now_rate ww)) = Denied r a"
  then show "fst (worker_fetch sha e ww kv wreq) = \<lparr>status = 429, body = TooManyRequests a\<rparr>"
    by (simp add: worker_fetch_denied)
next
  assume "fst (checkRateLimit kv (clientIP_of wreq) (w_now_rate ww)) = Allowed r \<and>
    w_body wreq = Body b \<and> worker_validateRequest b = Some err"
  then show "fst (worker_fetch sha e ww kv wreq) = \<lparr>status = 400, body = err\<rparr>"
    by (simp add: worker_fetch_invalid)
next
  assume h: "h_json hreq = JsonNext rawBody \<and> corsAllows allowedOrigins (h_origin hreq) \<and>
    limiter e sw \<lparr>ip = h_ip hreq, s_body = rawBody\<rparr> = Some resp"
  then show "app_post_translate sha e sw allowedOrigins cache hreq = (resp, cache, [])"
    by (simp add: app_post_translate_def server_translate_limited)
  from h show "resp = \<lparr>status = 429, body = LimiterMessage\<rparr>"
    by (auto simp: limiter_def split: if_splits)
next
  assume "h_json hreq = JsonNext (Body b') \<and> corsAllows allowedOrigins (h_origin hreq) \<and>
    limiter e sw \<lparr>ip = h_ip hreq, s_body = Body b'\<rparr> = None \<and>
    validateRequest b' = Some err'"
  then show "app_post_translate sha e sw allowedOrigins cache hreq =
        (\<lparr>status = 400, body = err'\<rparr>, cache, [])"
    by (simp add: app_post_translate_def server_translate_invalid)
next
  assume "h_json hreq = JsonError message"
  then show "app_post_translate sha e sw allowedOrigins cache hreq =
      (errorHandler e message, cache, [])"
    by (simp add: app_post_translate_def)
next
  assume "message \<noteq> js ''Not allowed by CORS''"
  then show "status (errorHandler e message) = 500"
    by (simp add: errorHandler_def)
next
  assume "h_json hreq = JsonNext rawBody \<and> \<not> corsAllows allowedOrigins (h_origin hreq)"
  then show "app_post_translate sha e sw allowedOrigins cache hreq =
        (\<lparr>status = 403, body = CorsError\<rparr>, cache, [])"
    by (simp add: app_post_translate_def errorHandler_def)
qed

text \<open>
  Witness of C7: an empty text with the client over and under its limit, on the worker
  and on the server; on the server also a body the JSON middleware cannot read and a
  disallowed origin, with the client over its limit.
\<close>

theorem rate_limit_before_validation_witness:
  "worker_validateRequest empty_text = Some InvalidText \<and>
   validateRequest empty_text = Some InvalidText \<and>
   fst (worker_fetch test_digest test_env test_worker_world full_window_kv
          \<lparr>cf_connecting_ip = None, w_body = Body empty_text\<rparr>)
     = \<lparr>status = 429, body = TooManyRequests 60\<rparr> \<and>
   fst (worker_fetch test_digest test_env test_worker_world empty_kv
          \<lparr>cf_connecting_ip = None, w_body = Body empty_text\<rparr>)
     = \<lparr>status = 400, body = InvalidText\<rparr> \<and>
   app_post_translate test_digest test_env (test_server_world\<lparr>s_over_limit := True\<rparr>)
       [js ''*''] Map.empty
       \<lparr>h_ip = js ''203.0.113.7'', h_origin = None, h_json = JsonNext (Body empty_text)\<rparr>
     = (\<lparr>status = 429, body = LimiterMessage\<rparr>, Map.empty, []) \<and>
   app_post_translate test_digest test_env test_server_world [js ''*''] Map.empty
       \<lparr>h_ip = js ''203.0.113.7'', h_origin = None, h_json = JsonNext (Body empty_text)\<rparr>
     = (\<lparr>status = 400, body = InvalidText\<rparr>, Map.empty, []) \<and>
   app_post_translate test_digest test_env (test_server_world\<lparr>s_over_limit := True\<rparr>)
       [js ''*''] Map.empty
       \<lparr>h_ip = js ''203.0.113.7'', h_origin = None,
        h_json = JsonError (js ''Unexpected end of JSON input'')\<rparr>
     = (\<lparr>status = 500, body = InternalServerError (js ''An unexpected error occurred'')\<rparr>,
        Map.empty, []) \<and>
   app_post_translate test_digest test_env (test_server_world\<lparr>s_over_limit := True\<rparr>)
       [js ''https://example.com''] Map.empty
       \<lparr>h_ip = js ''203.0.113.7'', h_origin = Some (js ''https://evil.example''),
        h_json = JsonNext (Body empty_text)\<rparr>
     = (\<lparr>status = 403, body = CorsError\<rparr>, Map.empty, [])"
  using rate_limit_before_validation [where e = test_env and sha = test_digest
      and ww = test_worker_world and kv = full_window_kv
      and wreq = "\<lparr>cf_connecting_ip = None, w_body = Body empty_text\<rparr>"
      and r = 0 and a = 60 and b = empty_text and err = InvalidText
      and sw = "test_server_world\<lparr>s_over_limit := True\<rparr>" and cache = Map.empty
      and allowedOrigins = "[js ''*'']"
      and hreq = "\<lparr>h_ip = js ''203.0.113.7'', h_origin = None,
                   h_json = JsonNext (Body empty_text)\<rparr>"
      and rawBody = "Body empty_text"
      and resp = "\<lparr>status = 429, body = LimiterMessage\<rparr>"
      and b' = empty_text and err' = InvalidText
      and message = "js ''Unexpected end of JSON input''"]
    rate_limit_before_validation [where e = test_env and sha = test_digest
      and ww = test_worker_world and kv = empty_kv
      and wreq = "\<lparr>cf_connecting_ip = None, w_body = Body empty_text\<rparr>"
      and r = 59 and a = 60 and b = empty_text and err = InvalidText
      and sw = test_server_world and cache = Map.empty
      and allowedOrigins = "[js ''*'']"
      and hreq = "\<lparr>h_ip = js ''203.0.113.7'', h_origin = None,
                   h_json = JsonNext (Body empty_text)\<rparr>"
      and rawBody = "Body empty_text"
      and resp = "\<lparr>status = 429, body = LimiterMessage\<rparr>"
      and b' = empty_text and err' = InvalidText
      and message = "js ''Unexpected end of JSON input''"]
    rate_limit_before_validation [where e = test_env and sha = test_digest
      and ww = test_worker_world and kv = empty_kv
      and wreq = "\<lparr>cf_connecting_ip = None, w_body = Body empty_text\<rparr>"
      and r = 59 and a = 60 and b = empty_text and err = InvalidText
      and sw = "test_server_world\<lparr>s_over_limit := True\<rparr>" and cache = Map.empty
      and allowedOrigins = "[js ''*'']"
      and hreq = "\<lparr>h_ip = js ''203.0.113.7'', h_origin = None,
                   h_json = JsonError (js ''Unexpected end of JSON input'')\<rparr>"
      and rawBody = "Body empty_text"
      and resp = "\<lparr>status = 429, body = LimiterMessage\<rparr>"
      and b' = empty_text and err' = InvalidText
      and message = "js ''Unexpected end of JSON input''"]
    rate_limit_before_validation [where e = test_env and sha = test_digest
      and ww = test_worker_world and kv = empty_kv
      and wreq = "\<lparr>cf_connecting_ip = None, w_body = Body empty_text\<rparr>"
      and r = 59 and a = 60 and b = empty_text and err = InvalidText
      and sw = "test_server_world\<lparr>s_over_limit := True\<rparr>" and cache = Map.empty
      and allowedOrigins = "[js ''https://example.com'']"
      and hreq = "\<lparr>h_ip = js ''203.0.113.7'', h_origin = Some (js ''https://evil.example''),
                   h_json = JsonNext (Body empty_text)\<rparr>"
      and rawBody = "Body empty_text"
      and resp = "\<lparr>status = 429, body = LimiterMessage\<rparr>"
      and b' = empty_text and err' = InvalidText
      and message = "js ''Unexpected end of JSON input''"]
  by (simp add: test_defs eval_defs)

section \<open>C8: the server's cache lookup\<close>

text \<open>
  C8: the server's cache lookup misses exactly when the key has no entry or the age of its
  entry, \<^verbatim>\<open>now - timestamp\<close>, is at least the time to live; it hits, with the entry, exactly
  when the key has this entry and its age is strictly less than the time to live.  The
  time to live is 72 hours when \<^verbatim>\<open>CACHE_TTL_HOURS\<close> is unset.
\<close>

theorem cacheLookup_miss_iff:
  "(cacheLookup e cache k now = None \<longleftrightarrow>
      (cache k = None \<or> (\<exists>c. cache k = Some c \<and> now - timestamp c \<ge> CACHE_TTL_MS e))) \<and>
   (cacheLookup e cache k now = Some c \<longleftrightarrow>
      (cache k = Some c \<and> now - timestamp c < CACHE_TTL_MS e)) \<and>
   CACHE_TTL_MS (e\<lparr>CACHE_TTL_HOURS := None\<rparr>) = 72 * 60 * 60 * 1000"
  by (auto simp: cacheLookup_def CACHE_TTL_MS_def split: option.splits)

text \<open>Witness of C8: an entry one millisecond before and exactly at 72 hours, and another key.\<close>

theorem cacheLookup_miss_iff_witness:
  "cacheLookup test_env
     [js ''k'' \<mapsto> \<lparr>translation = js ''Xin chao'', timestamp = 0\<rparr>] (js ''k'') 259199999
     = Some \<lparr>translation = js ''Xin chao'', timestamp = 0\<rparr> \<and>
   cacheLookup test_env
     [js ''k'' \<mapsto> \<lparr>translation = js ''Xin chao'', timestamp = 0\<rparr>] (js ''k'') 259200000
     = None \<and>
   cacheLookup test_env
     [js ''k'' \<mapsto> \<lparr>translation = js ''Xin chao'', timestamp = 0\<rparr>] (js ''j'') 0 = None"
  using cacheLookup_miss_iff [where e = test_env and k = "js ''k''" and now = 259199999
      and cache = "[js ''k'' \<mapsto> \<lparr>translation = js ''Xin chao'', timestamp = 0\<rparr>]"
      and c = "\<lparr>translation = js ''Xin chao'', timestamp = 0\<rparr>"]
    cacheLookup_miss_iff [where e = test_env and k = "js ''k''" and now = 259200000
      and cache = "[js ''k'' \<mapsto> \<lparr>translation = js ''Xin chao'', timestamp = 0\<rparr>]"
      and c = "\<lparr>translation = js ''Xin chao'', timestamp = 0\<rparr>"]
    cacheLookup_miss_iff [where e = test_env and k = "js ''j''" and now = 0
      and cache = "[js ''k'' \<mapsto> \<lparr>translation = js ''Xin chao'', timestamp = 0\<rparr>]"
      and c = "\<lparr>translation = js ''Xin chao'', timestamp = 0\<rparr>"]
  by (simp add: test_env_def CACHE_TTL_MS_def js_def)

section \<open>C9: the cache round trip\<close>

lemma server_first_stores:
  assumes "s_body req = Body b"
    and "server_translate sha e w cache req =
           (\<lparr>status = 200, body = TranslationResult tr False lang\<rparr>, cache1, calls1)"
    and "CachePut k \<in> set calls1"
  shows "validateRequest b = None \<and>
         lang = detectedSourceLang e w (sourceLangOrDefault b) (normalizeText (stringOf (req_text b))) \<and>
         \<not> strict_eq lang (req_targetLang b) \<and>
         cache1 = cache(generateCacheKey sha (normalizeText (stringOf (req_text b))) lang
                    (req_targetLang b) (req_provider b)
                  \<mapsto> \<lparr>translation = tr, timestamp = s_now_store w\<rparr>)"
  using assms
  by (auto simp: server_translate_def post_translate_def post_translate_try_def Let_def
      detectionCalls_def limiter_def
      split: option.splits sum.splits if_splits)

lemma server_cache_round_trip:
  assumes "s_body req = Body b"
    and "server_translate sha e w1 cache req =
           (\<lparr>status = 200, body = TranslationResult tr False lang\<rparr>, cache1, calls1)"
    and "CachePut k \<in> set calls1"
    and "limiter e w2 req = None"
    and "s_now_lookup w2 - s_now_store w1 < CACHE_TTL_MS e"
    and "detectedSourceLang e w2 (sourceLangOrDefault b) (normalizeText (stringOf (req_text b))) = lang"
  shows "server_translate sha e w2 cache1 req =
           (\<lparr>status = 200, body = TranslationResult tr True lang\<rparr>, cache1,
            detectionCalls (sourceLangOrDefault b) (normalizeText (stringOf (req_text b))) @
              [CacheGet (generateCacheKey sha (normalizeText (stringOf (req_text b))) lang
                 (req_targetLang b) (req_provider b))])"
proof -
  let ?t = "normalizeText (stringOf (req_text b))"
  note f = server_first_stores [OF assms(1,2,3)]
  from f have v: "validateRequest b = None" by blast
  from f have ne: "\<not> strict_eq lang (req_targetLang b)" by blast
  from f have c: "cache1 = cache(generateCacheKey sha ?t lang (req_targetLang b) (req_provider b)
                  \<mapsto> \<lparr>translation = tr, timestamp = s_now_store w1\<rparr>)" by blast
  have l: "cacheLookup e cache1 (generateCacheKey sha ?t lang (req_targetLang b) (req_provider b))
             (s_now_lookup w2) = Some \<lparr>translation = tr, timestamp = s_now_store w1\<rparr>"
    using assms(5) by (simp add: cacheLookup_def c)
  show ?thesis
    using ne
    by (simp add: server_translate_def post_translate_def post_translate_try_def Let_def
        assms(1,4,6) v l)
qed

lemma worker_first_stores:
  assumes "w_body req = Body b"
    and "worker_fetch sha e w kv req =
           (\<lparr>status = 200, body = TranslationResult tr False lang\<rparr>, kv1, calls1)"
    and "CachePut k \<in> set calls1"
  shows "worker_validateRequest b = None \<and>
         worker_detectedSourceLang e w (sourceLangOrDefault b)
           (worker_normalizeText (stringOf (req_text b))) = Inr lang \<and>
         \<not> strict_eq lang (req_targetLang b) \<and>
         cache_keys kv1 =
           kv_put (cache_keys kv)
             (generateCacheKey sha (worker_normalizeText (stringOf (req_text b))) lang
                (req_targetLang b) (req_provider b))
             \<lparr>translation = tr, timestamp = w_now_store w\<rparr> CACHE_TTL (w_now_store w)"
proof -
  obtain rr kv0 where c: "checkRateLimit kv (clientIP_of req) (w_now_rate w) = (rr, kv0)"
    by (cases "checkRateLimit kv (clientIP_of req) (w_now_rate w)") auto
  have k: "cache_keys kv0 = cache_keys kv"
    using checkRateLimit_cache_keys [of kv "clientIP_of req" "w_now_rate w"] c by simp
  show ?thesis
    using assms c k
    by (auto simp: worker_fetch_def worker_try_def worker_translate_stage_def Let_def
        detectionCalls_def
        split: option.splits sum.splits if_splits rate_result.splits prod.splits)
qed

lemma worker_cache_round_trip:
  assumes "w_body req = Body b"
    and "worker_fetch sha e w1 kv req =
           (\<lparr>status = 200, body = TranslationResult tr False lang\<rparr>, kv1, calls1)"
    and "CachePut k \<in> set calls1"
    and "fst (checkRateLimit kv1 (clientIP_of req) (w_now_rate w2)) = Allowed r2"
    and "w_now_lookup w2 < w_now_store w1 + CACHE_TTL * 1000"
    and "tr \<noteq> []"
    and "worker_detectedSourceLang e w2 (sourceLangOrDefault b)
           (worker_normalizeText (stringOf (req_text b))) = Inr lang"
  shows "worker_fetch sha e w2 kv1 req =
           (\<lparr>status = 200, body = TranslationResult tr True lang\<rparr>,
            snd (checkRateLimit kv1 (clientIP_of req) (w_now_rate w2)),
            detectionCalls (sourceLangOrDefault b) (worker_normalizeText (stringOf (req_text b))) @
              [CacheGet (generateCacheKey sha (worker_normalizeText (stringOf (req_text b))) lang
                 (req_targetLang b) (req_provider b))])"
proof -
  let ?t = "worker_normalizeText (stringOf (req_text b))"
  let ?k = "generateCacheKey sha ?t lang (req_targetLang b) (req_provider b)"
  note f = worker_first_stores [OF assms(1,2,3)]
  from f have v: "worker_validateRequest b = None" by blast
  from f have ne: "\<not> strict_eq lang (req_targetLang b)" by blast
  from f have c: "cache_keys kv1 =
      kv_put (cache_keys kv) ?k \<lparr>translation = tr, timestamp = w_now_store w1\<rparr>
        CACHE_TTL (w_now_store w1)" by blast
  have "worker_cacheLookup kv1 ?k (w_now_lookup w2)
          = Some \<lparr>translation = tr, timestamp = w_now_store w1\<rparr>"
    using assms(5,6) by (simp add: worker_cacheLookup_def c kv_get_def kv_put_def)
  then have l: "worker_cacheLookup (snd (checkRateLimit kv1 (clientIP_of req) (w_now_rate w2))) ?k
      (w_now_lookup w2) = Some \<lparr>translation = tr, timestamp = w_now_store w1\<rparr>"
    by (simp add: worker_cacheLookup_checkRateLimit)
  show ?thesis
    using ne assms(4) l
    by (cases "checkRateLimit kv1 (clientIP_of req) (w_now_rate w2)")
       (simp add: worker_fetch_def worker_try_def worker_translate_stage_def Let_def
          assms(1,7) v)
qed

lemma server_first_eval:
  "server_translate test_digest test_env test_server_world Map.empty
      \<lparr>ip = js ''203.0.113.7'', s_body = Body hello_world\<rparr> =
     (\<lparr>status = 200, body = TranslationResult (js ''Xin chao'') False (JStr (js ''en''))\<rparr>,
      [js ''Hello worldenvigemini'' \<mapsto> \<lparr>translation = js ''Xin chao'', timestamp = 2000\<rparr>],
      [CacheGet (js ''Hello worldenvigemini''),
       TranslateCall (js ''Hello world'') (JStr (js ''en'')) (JStr (js ''vi'')),
       CachePut (js ''Hello worldenvigemini'')])"
  by (simp add: test_defs eval_defs)

lemma worker_first_eval:
  "worker_fetch test_digest test_env test_worker_world empty_kv
      \<lparr>cf_connecting_ip = None, w_body = Body hello_world\<rparr> =
     (\<lparr>status = 200, body = TranslationResult (js ''Xin chao'') False (JStr (js ''en''))\<rparr>,
      \<lparr>ratelimit_keys = [js ''unknown'' \<mapsto>
         \<lparr>kv_value = \<lparr>count = 1, windowStart = 1000\<rparr>, kv_expires = 61000\<rparr>],
       cache_keys = [js ''Hello worldenvigemini'' \<mapsto>
         \<lparr>kv_value = \<lparr>translation = js ''Xin chao'', timestamp = 2000\<rparr>,
          kv_expires = 259202000\<rparr>]\<rparr>,
      [CacheGet (js ''Hello worldenvigemini''),
       TranslateCall (js ''Hello world'') (JStr (js ''en'')) (JStr (js ''vi'')),
       CachePut (js ''Hello worldenvigemini'')])"
  by (simp add: test_defs eval_defs)

text \<open>
  C9 (as stated, refuted): a request with \<^verbatim>\<open>sourceLang\<close> \<^verbatim>\<open>"auto"\<close> succeeds through the
  upstream translation; repeated at once, with detection now answering another language,
  it is answered with \<^verbatim>\<open>cached\<close> false again.
\<close>

theorem cache_round_trip_counterexample:
  "fst (server_translate test_digest test_env
          (test_server_world\<lparr>s_detect := \<lambda>k m t. SdkText (js ''fr''),
             s_translate := \<lambda>k m t s l. SdkText (js ''Hello'')\<rparr>)
          Map.empty \<lparr>ip = js ''203.0.113.7'', s_body = Body bonjour_auto\<rparr>)
     = \<lparr>status = 200, body = TranslationResult (js ''Hello'') False (JStr (js ''fr''))\<rparr> \<and>
   fst (server_translate test_digest test_env
          (test_server_world\<lparr>s_now_lookup := 2001, s_now_store := 3000,
             s_detect := \<lambda>k m t. SdkText (js ''it''),
             s_translate := \<lambda>k m t s l. SdkText (js ''Hello'')\<rparr>)
          (fst (snd (server_translate test_digest test_env
             (test_server_world\<lparr>s_detect := \<lambda>k m t. SdkText (js ''fr''),
                s_translate := \<lambda>k m t s l. SdkText (js ''Hello'')\<rparr>)
             Map.empty \<lparr>ip = js ''203.0.113.7'', s_body = Body bonjour_auto\<rparr>)))
          \<lparr>ip = js ''203.0.113.7'', s_body = Body bonjour_auto\<rparr>)
     = \<lparr>status = 200, body = TranslationResult (js ''Hello'') False (JStr (js ''it''))\<rparr>"
  by (simp add: test_defs bonjour_auto_def eval_defs)

text \<open>
  C9 (amended): when a request is answered with status 200 and \<^verbatim>\<open>cached\<close> false after an
  upstream translation that was stored, the same request, repeated so that its cache
  lookup comes less than the time to live after the store and its source language
  resolves to the same value (as it always does when the language is given), is answered
  with \<^verbatim>\<open>cached\<close> true and the same translation, without a translation call.  On the worker
  the repeated request must also pass the rate limit and the stored translation must not
  be empty.
\<close>

theorem cache_round_trip:
  "(s_body sreq = Body b \<and>
    server_translate sha e swa cache sreq =
      (\<lparr>status = 200, body = TranslationResult tr False lang\<rparr>, cache', calls) \<and>
    CachePut k \<in> set calls \<and>
    limiter e swb sreq = None \<and>
    s_now_lookup swb - s_now_store swa < CACHE_TTL_MS e \<and>
    detectedSourceLang e swb (sourceLangOrDefault b) (normalizeText (stringOf (req_text b))) = lang
    \<longrightarrow>
      (\<exists>calls'.
         server_translate sha e swb cache' sreq =
           (\<lparr>status = 200, body = TranslationResult tr True lang\<rparr>, cache', calls') \<and>
         (\<forall>t s l. TranslateCall t s l \<notin> set calls'))) \<and>
   (w_body wreq = Body wb \<and>
    worker_fetch sha e wwa kv wreq =
      (\<lparr>status = 200, body = TranslationResult wtr False wlang\<rparr>, kv', wcalls) \<and>
    CachePut wk \<in> set wcalls \<and>
    fst (checkRateLimit kv' (clientIP_of wreq) (w_now_rate wwb)) = Allowed r \<and>
    w_now_lookup wwb < w_now_store wwa + CACHE_TTL * 1000 \<and>
    wtr \<noteq> [] \<and>
    worker_detectedSourceLang e wwb (sourceLangOrDefault wb)
      (worker_normalizeText (stringOf (req_text wb))) = Inr wlang
    \<longrightarrow>
      (\<exists>kv'' wcalls'.
         worker_fetch sha e wwb kv' wreq =
           (\<lparr>status = 200, body = TranslationResult wtr True wlang\<rparr>, kv'', wcalls') \<and>
         (\<forall>t s l. TranslateCall t s l \<notin> set wcalls')))"
proof (intro conjI impI)
  assume a: "s_body sreq = Body b \<and>
    server_translate sha e swa cache sreq =
      (\<lparr>status = 200, body = TranslationResult tr False lang\<rparr>, cache', calls) \<and>
    CachePut k \<in> set calls \<and>
    limiter e swb sreq = None \<and>
    s_now_lookup swb - s_now_store swa < CACHE_TTL_MS e \<and>
    detectedSourceLang e swb (sourceLangOrDefault b) (normalizeText (stringOf (req_text b))) = lang"
  have "server_translate sha e swb cache' sreq =
           (\<lparr>status = 200, body = TranslationResult tr True lang\<rparr>, cache',
            detectionCalls (sourceLangOrDefault b) (normalizeText (stringOf (req_text b))) @
              [CacheGet (generateCacheKey sha (normalizeText (stringOf (req_text b))) lang
                 (req_targetLang b) (req_provider b))])"
    by (rule server_cache_round_trip [where ?w1.0 = swa and cache = cache and ?calls1.0 = calls
          and k = k]) (use a in blast)+
  then show "\<exists>calls'.
         server_translate sha e swb cache' sreq =
           (\<lparr>status = 200, body = TranslationResult tr True lang\<rparr>, cache', calls') \<and>
         (\<forall>t s l. TranslateCall t s l \<notin> set calls')"
    by (simp add: detectionCalls_only_detect)
next
  assume a: "w_body wreq = Body wb \<and>
    worker_fetch sha e wwa kv wreq =
      (\<lparr>status = 200, body = TranslationResult wtr False wlang\<rparr>, kv', wcalls) \<and>
    CachePut wk \<in> set wcalls \<and>
    fst (checkRateLimit kv' (clientIP_of wreq) (w_now_rate wwb)) = Allowed r \<and>
    w_now_lookup wwb < w_now_store wwa + CACHE_TTL * 1000 \<and>
    wtr \<noteq> [] \<and>
    worker_detectedSourceLang e wwb (sourceLangOrDefault wb)
      (worker_normalizeText (stringOf (req_text wb))) = Inr wlang"
  have "worker_fetch sha e wwb kv' wreq =
           (\<lparr>status = 200, body = TranslationResult wtr True wlang\<rparr>,
            snd (checkRateLimit kv' (clientIP_of wreq) (w_now_rate wwb)),
            detectionCalls (sourceLangOrDefault wb) (worker_normalizeText (stringOf (req_text wb))) @
              [CacheGet (generateCacheKey sha (worker_normalizeText (stringOf (req_text wb))) wlang
                 (req_targetLang wb) (req_provider wb))])"
    by (rule worker_cache_round_trip [where ?w1.0 = wwa and kv = kv and ?calls1.0 = wcalls
          and k = wk and ?r2.0 = r]) (use a in blast)+
  then show "\<exists>kv'' wcalls'.
         worker_fetch sha e wwb kv' wreq =
           (\<lparr>status = 200, body = TranslationResult wtr True wlang\<rparr>, kv'', wcalls') \<and>
         (\<forall>t s l. TranslateCall t s l \<notin> set wcalls')"
    by (simp add: detectionCalls_only_detect)
qed

text \<open>Witness of C9: the first test request, twice, on the server and on the worker.\<close>

theorem cache_round_trip_witness:
  "fst (server_translate test_digest test_env test_server_world Map.empty
          \<lparr>ip = js ''203.0.113.7'', s_body = Body hello_world\<rparr>)
     = \<lparr>status = 200, body = TranslationResult (js ''Xin chao'') False (JStr (js ''en''))\<rparr> \<and>
   fst (server_translate test_digest test_env later_server_world
          [js ''Hello worldenvigemini'' \<mapsto> \<lparr>translation = js ''Xin chao'', timestamp = 2000\<rparr>]
          \<lparr>ip = js ''203.0.113.7'', s_body = Body hello_world\<rparr>)
     = \<lparr>status = 200, body = TranslationResult (js ''Xin chao'') True (JStr (js ''en''))\<rparr> \<and>
   fst (worker_fetch test_digest test_env test_worker_world empty_kv
          \<lparr>cf_connecting_ip = None, w_body = Body hello_world\<rparr>)
     = \<lparr>status = 200, body = TranslationResult (js ''Xin chao'') False (JStr (js ''en''))\<rparr> \<and>
   fst (worker_fetch test_digest test_env later_worker_world
          \<lparr>ratelimit_keys = [js ''unknown'' \<mapsto>
             \<lparr>kv_value = \<lparr>count = 1, windowStart = 1000\<rparr>, kv_expires = 61000\<rparr>],
           cache_keys = [js ''Hello worldenvigemini'' \<mapsto>
             \<lparr>kv_value = \<lparr>translation = js ''Xin chao'', timestamp = 2000\<rparr>,
              kv_expires = 259202000\<rparr>]\<rparr>
          \<lparr>cf_connecting_ip = None, w_body = Body hello_world\<rparr>)
     = \<lparr>status = 200, body = TranslationResult (js ''Xin chao'') True (JStr (js ''en''))\<rparr>"
proof -
  let ?sreq = "\<lparr>ip = js ''203.0.113.7'', s_body = Body hello_world\<rparr>"
  let ?wreq = "\<lparr>cf_connecting_ip = None, w_body = Body hello_world\<rparr>"
  let ?cache = "[js ''Hello worldenvigemini'' \<mapsto> \<lparr>translation = js ''Xin chao'', timestamp = 2000\<rparr>]"
  let ?kv = "\<lparr>ratelimit_keys = [js ''unknown'' \<mapsto>
             \<lparr>kv_value = \<lparr>count = 1, windowStart = 1000\<rparr>, kv_expires = 61000\<rparr>],
           cache_keys = [js ''Hello worldenvigemini'' \<mapsto>
             \<lparr>kv_value = \<lparr>translation = js ''Xin chao'', timestamp = 2000\<rparr>,
              kv_expires = 259202000\<rparr>]\<rparr>"
  let ?calls = "[CacheGet (js ''Hello worldenvigemini''),
       TranslateCall (js ''Hello world'') (JStr (js ''en'')) (JStr (js ''vi'')),
       CachePut (js ''Hello worldenvigemini'')]"
  note t = cache_round_trip [where sha = test_digest and e = test_env
      and sreq = ?sreq and b = hello_world and swa = test_server_world and cache = Map.empty
      and tr = "js ''Xin chao''" and lang = "JStr (js ''en'')" and cache' = ?cache
      and calls = ?calls and k = "js ''Hello worldenvigemini''" and swb = later_server_world
      and wreq = ?wreq and wb = hello_world and wwa = test_worker_world and kv = empty_kv
      and wtr = "js ''Xin chao''" and wlang = "JStr (js ''en'')" and kv' = ?kv
      and wcalls = ?calls and wk = "js ''Hello worldenvigemini''" and wwb = later_worker_world
      and r = 58]
  have s1: "limiter test_env later_server_world ?sreq = None"
    by (simp add: limiter_def test_env_def later_server_world_def test_server_world_def)
  have s2: "s_now_lookup later_server_world - s_now_store test_server_world < CACHE_TTL_MS test_env"
    by (simp add: later_server_world_def test_server_world_def CACHE_TTL_MS_def test_env_def)
  have s3: "detectedSourceLang test_env later_server_world (sourceLangOrDefault hello_world)
      (normalizeText (stringOf (req_text hello_world))) = JStr (js ''en'')"
    by (simp add: detectedSourceLang_def sourceLangOrDefault_def hello_world_def js_def)
  have w1: "fst (checkRateLimit ?kv (clientIP_of ?wreq) (w_now_rate later_worker_world)) = Allowed 58"
    by (simp add: checkRateLimit_def kv_get_def clientIP_of_def later_worker_world_def
        test_worker_world_def RATE_LIMIT_MAX_def RATE_LIMIT_WINDOW_def Let_def)
  have w2: "w_now_lookup later_worker_world < w_now_store test_worker_world + CACHE_TTL * 1000"
    by (simp add: later_worker_world_def test_worker_world_def CACHE_TTL_def)
  have w3: "js ''Xin chao'' \<noteq> []" by (simp add: js_def)
  have w4: "worker_detectedSourceLang test_env later_worker_world (sourceLangOrDefault hello_world)
      (worker_normalizeText (stringOf (req_text hello_world))) = Inr (JStr (js ''en''))"
    by (simp add: worker_detectedSourceLang_def sourceLangOrDefault_def hello_world_def js_def)
  from t server_first_eval s1 s2 s3
  have a: "\<exists>calls'. server_translate test_digest test_env later_server_world ?cache ?sreq =
      (\<lparr>status = 200, body = TranslationResult (js ''Xin chao'') True (JStr (js ''en''))\<rparr>,
       ?cache, calls') \<and> (\<forall>t s l. TranslateCall t s l \<notin> set calls')"
    by simp
  from t worker_first_eval w1 w2 w3 w4
  have b: "\<exists>kv'' wcalls'. worker_fetch test_digest test_env later_worker_world ?kv ?wreq =
      (\<lparr>status = 200, body = TranslationResult (js ''Xin chao'') True (JStr (js ''en''))\<rparr>,
       kv'', wcalls') \<and> (\<forall>t s l. TranslateCall t s l \<notin> set wcalls')"
    by simp
  from a b server_first_eval worker_first_eval show ?thesis by auto
qed

end
